theory Spec2Isabelle
  imports Main "HOL-Library.Sublist"
begin

section \<open>Python values, errors and strings\<close>

text \<open>
  The two rule engines of \<^verbatim>\<open>src/rules\<close> work on dictionaries. The fields of the
  request and of the configuration carry the types of the documents the engines are fed
  (strings, integers, booleans, dates); a key that may be absent is an \<open>option\<close>, and
  reading an absent key with \<^verbatim>\<open>d[k]\<close> is the error \<open>KeyError k\<close>. What an engine
  returns is a dictionary again: an association list in insertion order.
\<close>

datatype pyval = PNone | PBool bool | PInt int | PStr string | PDict "(string \<times> pyval) list"

text \<open>
  Every \<^verbatim>\<open>raise ValueError(...)\<close> of the source and of \<^verbatim>\<open>strptime\<close> is a
  \<open>ValueError\<close> whose payload records which one it was and the values its message
  interpolates.
\<close>

datatype erro_valor =
    ConfigAusente
  | PeriodoInvalido string string
  | QuantidadeInvalida string "int option"
  | PeriodoNaoSuportado string
  | DataInvalida string

datatype py_error = KeyError string | TypeError | ValueError erro_valor

definition getitem :: "pyval \<Rightarrow> string \<Rightarrow> py_error + pyval" where
  "getitem d k = (case d of
       PDict kvs \<Rightarrow> (case map_of kvs k of None \<Rightarrow> Inl (KeyError k) | Some v \<Rightarrow> Inr v)
     | _ \<Rightarrow> Inl TypeError)"

definition truthy :: "pyval \<Rightarrow> bool" where
  "truthy v = (case v of PNone \<Rightarrow> False | PBool b \<Rightarrow> b | PInt i \<Rightarrow> i \<noteq> 0
     | PStr s \<Rightarrow> s \<noteq> [] | PDict kvs \<Rightarrow> kvs \<noteq> [])"

text \<open>\<^verbatim>\<open>all(r["conforme"] for r in rs)\<close>: the generator stops at the first falsy flag.\<close>

fun all_conforme :: "pyval list \<Rightarrow> py_error + bool" where
  "all_conforme [] = Inr True"
| "all_conforme (r # rs) =
     (case getitem r ''conforme'' of
        Inl e \<Rightarrow> Inl e
      | Inr v \<Rightarrow> if truthy v then all_conforme rs else Inr False)"

text \<open>\<^verbatim>\<open>str.lower\<close> on ASCII letters; bytes outside \<open>A..Z\<close> are kept.\<close>

definition lower_char :: "char \<Rightarrow> char" where
  "lower_char c = (let n = (of_char c :: nat) in if 65 \<le> n \<and> n \<le> 90 then char_of (n + 32) else c)"

definition lower :: "string \<Rightarrow> string" where
  "lower s = map lower_char s"

text \<open>\<^verbatim>\<open>str(n)\<close> for an integer, as the f-strings of the messages print it.\<close>

definition digit_char :: "nat \<Rightarrow> char" where
  "digit_char n = char_of (48 + n)"

fun digits :: "nat \<Rightarrow> string" where
  "digits n = (if n < 10 then [digit_char n] else digits (n div 10) @ [digit_char (n mod 10)])"

declare digits.simps [simp del]

definition str_int :: "int \<Rightarrow> string" where
  "str_int i = (if i < 0 then CHR ''-'' # digits (nat (- i)) else digits (nat i))"

definition zfill :: "nat \<Rightarrow> string \<Rightarrow> string" where
  "zfill w s = replicate (w - length s) (CHR ''0'') @ s"

text \<open>The accented letters of the messages, as their UTF-8 bytes.\<close>

definition a_agudo :: string where "a_agudo = [CHR 0xC3, CHR 0xA1]"
definition a_til :: string where "a_til = [CHR 0xC3, CHR 0xA3]"
definition e_circ :: string where "e_circ = [CHR 0xC3, CHR 0xAA]"
definition i_agudo :: string where "i_agudo = [CHR 0xC3, CHR 0xAD]"
definition u_agudo :: string where "u_agudo = [CHR 0xC3, CHR 0xBA]"
definition o_til :: string where "o_til = [CHR 0xC3, CHR 0xB5]"
definition c_cedilha :: string where "c_cedilha = [CHR 0xC3, CHR 0xA7]"
definition maior_igual :: string where "maior_igual = [CHR 0xE2, CHR 0x89, CHR 0xA5]"

section \<open>Calendar dates\<close>

text \<open>
  \<^verbatim>\<open>datetime.date\<close> of the standard library, with the arithmetic of CPython's
  \<^verbatim>\<open>_pydatetime.py\<close>: proleptic Gregorian ordinals (1 January of year 1 is day 1),
  \<^verbatim>\<open>isocalendar\<close>, comparison, subtraction and \<^verbatim>\<open>isoformat\<close>.
\<close>

record date =
  year :: int
  month :: int
  day :: int

definition is_leap :: "int \<Rightarrow> bool" where
  "is_leap y = (y mod 4 = 0 \<and> (y mod 100 \<noteq> 0 \<or> y mod 400 = 0))"

definition days_before_year :: "int \<Rightarrow> int" where
  "days_before_year y' = (let y = y' - 1 in y * 365 + y div 4 - y div 100 + y div 400)"

definition DAYS_IN_MONTH :: "int list" where
  "DAYS_IN_MONTH = [-1, 31, 28, 31, 30, 31, 30, 31, 31, 30, 31, 30, 31]"

definition DAYS_BEFORE_MONTH :: "int list" where
  "DAYS_BEFORE_MONTH = [-1, 0, 31, 59, 90, 120, 151, 181, 212, 243, 273, 304, 334]"

definition days_in_month :: "int \<Rightarrow> int \<Rightarrow> int" where
  "days_in_month y m = (if m = 2 \<and> is_leap y then 29 else DAYS_IN_MONTH ! nat m)"

definition days_before_month :: "int \<Rightarrow> int \<Rightarrow> int" where
  "days_before_month y m = DAYS_BEFORE_MONTH ! nat m + (if m > 2 \<and> is_leap y then 1 else 0)"

definition ymd2ord :: "int \<Rightarrow> int \<Rightarrow> int \<Rightarrow> int" where
  "ymd2ord y m d = days_before_year y + days_before_month y m + d"

text \<open>The dates a \<^verbatim>\<open>date\<close> object can hold (\<^verbatim>\<open>MINYEAR = 1\<close>, \<^verbatim>\<open>MAXYEAR = 9999\<close>).\<close>

definition valid_date :: "date \<Rightarrow> bool" where
  "valid_date dt = (1 \<le> year dt \<and> year dt \<le> 9999 \<and> 1 \<le> month dt \<and> month dt \<le> 12
     \<and> 1 \<le> day dt \<and> day dt \<le> days_in_month (year dt) (month dt))"

definition toordinal :: "date \<Rightarrow> int" where
  "toordinal dt = ymd2ord (year dt) (month dt) (day dt)"

definition weekday :: "date \<Rightarrow> int" where
  "weekday dt = (toordinal dt + 6) mod 7"

definition isoweek1monday :: "int \<Rightarrow> int" where
  "isoweek1monday y =
     (let firstday = ymd2ord y 1 1;
          firstweekday = (firstday + 6) mod 7;
          week1monday = firstday - firstweekday
      in if firstweekday > 3 then week1monday + 7 else week1monday)"

definition isocalendar :: "date \<Rightarrow> int \<times> int \<times> int" where
  "isocalendar dt =
     (let y = year dt;
          week1monday = isoweek1monday y;
          today = ymd2ord (year dt) (month dt) (day dt);
          week = (today - week1monday) div 7;
          wd = (today - week1monday) mod 7
      in if week < 0 then
           (let y' = y - 1;
                week1monday' = isoweek1monday y';
                week' = (today - week1monday') div 7;
                wd' = (today - week1monday') mod 7
            in (y', week' + 1, wd' + 1))
         else if week \<ge> 52 \<and> today \<ge> isoweek1monday (y + 1) then (y + 1, 0 + 1, wd + 1)
         else (y, week + 1, wd + 1))"

text \<open>\<^verbatim>\<open>a <= b\<close>, \<^verbatim>\<open>a > b\<close> (comparison of the triples) and \<^verbatim>\<open>(a - b).days\<close>.\<close>

definition date_le :: "date \<Rightarrow> date \<Rightarrow> bool" where
  "date_le a b = (year a < year b \<or> (year a = year b \<and>
       (month a < month b \<or> (month a = month b \<and> day a \<le> day b))))"

definition date_gt :: "date \<Rightarrow> date \<Rightarrow> bool" where
  "date_gt a b = (\<not> date_le a b)"

definition days_between :: "date \<Rightarrow> date \<Rightarrow> int" where
  "days_between a b = toordinal a - toordinal b"

definition isoformat :: "date \<Rightarrow> string" where
  "isoformat dt = zfill 4 (str_int (year dt)) @ ''-'' @ zfill 2 (str_int (month dt))
     @ ''-'' @ zfill 2 (str_int (day dt))"

subsection \<open>Parsing a date\<close>

text \<open>
  \<^verbatim>\<open>datetime.strptime(s, "%Y-%m-%d").date()\<close>. The format compiles to the regular
  expression \<^verbatim>\<open>(\d\d\d\d)-(1[0-2]|0[1-9]|[1-9])-(3[0-1]|[1-2]\d|0[1-9]|[1-9]| [1-9])\<close>,
  matched at the start of the string; text left over after the match, a string that does
  not match, and a day or year that no calendar date has are all \<^verbatim>\<open>ValueError\<close>.
  Strings are ASCII here: the digits are \<open>0..9\<close>.
\<close>

definition is_digit :: "char \<Rightarrow> bool" where
  "is_digit c = (let n = (of_char c :: nat) in 48 \<le> n \<and> n \<le> 57)"

definition digit_val :: "char \<Rightarrow> int" where
  "digit_val c = int (of_char c) - 48"

definition in_range :: "char \<Rightarrow> nat \<Rightarrow> nat \<Rightarrow> bool" where
  "in_range c lo hi = (let n = (of_char c :: nat) in 48 + lo \<le> n \<and> n \<le> 48 + hi)"

text \<open>The ways the month group matches a prefix, in the order of its alternatives.\<close>

fun alts_m :: "string \<Rightarrow> (int \<times> string) list" where
  "alts_m (a # b # r) =
     (if a = CHR ''1'' \<and> in_range b 0 2 then [(10 + digit_val b, r)] else [])
     @ (if a = CHR ''0'' \<and> in_range b 1 9 then [(digit_val b, r)] else [])
     @ (if in_range a 1 9 then [(digit_val a, b # r)] else [])"
| "alts_m [a] = (if in_range a 1 9 then [(digit_val a, [])] else [])"
| "alts_m [] = []"

text \<open>The same for the day group.\<close>

fun alts_d :: "string \<Rightarrow> (int \<times> string) list" where
  "alts_d (a # b # r) =
     (if a = CHR ''3'' \<and> in_range b 0 1 then [(30 + digit_val b, r)] else [])
     @ (if in_range a 1 2 \<and> is_digit b then [(10 * digit_val a + digit_val b, r)] else [])
     @ (if a = CHR ''0'' \<and> in_range b 1 9 then [(digit_val b, r)] else [])
     @ (if in_range a 1 9 then [(digit_val a, b # r)] else [])
     @ (if a = CHR '' '' \<and> in_range b 1 9 then [(digit_val b, r)] else [])"
| "alts_d [a] = (if in_range a 1 9 then [(digit_val a, [])] else [])"
| "alts_d [] = []"

text \<open>Every match of the whole expression, in backtracking order: (year, month, day, rest).\<close>

definition matches :: "string \<Rightarrow> (int \<times> int \<times> int \<times> string) list" where
  "matches s = (case s of
       y1 # y2 # y3 # y4 # r1 \<Rightarrow>
         if is_digit y1 \<and> is_digit y2 \<and> is_digit y3 \<and> is_digit y4 then
           (let y = 1000 * digit_val y1 + 100 * digit_val y2 + 10 * digit_val y3 + digit_val y4
            in case r1 of
                 c1 # r1' \<Rightarrow>
                   if c1 = CHR ''-'' then
                     concat (map (\<lambda>(m, r2). case r2 of
                         c2 # r2' \<Rightarrow>
                           if c2 = CHR ''-'' then map (\<lambda>(d, r3). (y, m, d, r3)) (alts_d r2') else []
                       | [] \<Rightarrow> []) (alts_m r1'))
                   else []
               | [] \<Rightarrow> [])
         else []
     | _ \<Rightarrow> [])"

definition strptime :: "string \<Rightarrow> py_error + date" where
  "strptime s = (case matches s of
       [] \<Rightarrow> Inl (ValueError (DataInvalida s))
     | (y, m, d, rest) # _ \<Rightarrow>
         if rest \<noteq> [] then Inl (ValueError (DataInvalida s))
         else if y < 1 \<or> d > days_in_month y m then Inl (ValueError (DataInvalida s))
         else Inr \<lparr>year = y, month = m, day = d\<rparr>)"

text \<open>
  \<^verbatim>\<open>DateLike = Union[str, date, datetime]\<close>; of a \<^verbatim>\<open>datetime\<close> only its date is
  read (\<^verbatim>\<open>d.date()\<close>), so only that is kept.
\<close>

datatype datelike = DStr string | DDate date | DDateTime date

definition parse_date :: "datelike \<Rightarrow> py_error + date" where
  "parse_date d = (case d of DDate dt \<Rightarrow> Inr dt | DDateTime dt \<Rightarrow> Inr dt | DStr s \<Rightarrow> strptime s)"

section \<open>Reading dictionaries\<close>

text \<open>\<^verbatim>\<open>d[k]\<close> on a key that may be absent, and sequencing of steps that may raise.\<close>

definition req :: "string \<Rightarrow> 'a option \<Rightarrow> py_error + 'a" where
  "req k v = (case v of None \<Rightarrow> Inl (KeyError k) | Some x \<Rightarrow> Inr x)"

definition py_bind :: "py_error + 'a \<Rightarrow> ('a \<Rightarrow> py_error + 'b) \<Rightarrow> py_error + 'b" where
  "py_bind m f = (case m of Inl e \<Rightarrow> Inl e | Inr x \<Rightarrow> f x)"

definition aspas :: string where "aspas = [CHR 0x27]"

section \<open>The request context\<close>

record beneficiario =
  ativo :: "bool option"
  idade :: "int option"
  carencia_dias :: "int option"

record procedimento =
  cid :: "string option"
  tipo :: "string option"
  quantidade :: "int option"
  data_solicitacao :: "datelike option"

text \<open>One entry of \<^verbatim>\<open>historico_sessoes\<close>: keys \<^verbatim>\<open>tipo\<close> and \<^verbatim>\<open>data\<close>.\<close>

record sessao =
  sessao_tipo :: "string option"
  sessao_data :: "datelike option"

record contexto =
  ctx_beneficiario :: "beneficiario option"
  ctx_procedimento :: "procedimento option"
  historico_sessoes :: "sessao list option"

section \<open>The frequency engine (\<^verbatim>\<open>RegraMotorFrequencia\<close>)\<close>

text \<open>One entry of \<^verbatim>\<open>frequencia_maxima\<close>: keys \<^verbatim>\<open>periodo\<close> and \<^verbatim>\<open>quantidade\<close>.\<close>

record regra_frequencia =
  regra_periodo :: "string option"
  regra_quantidade :: "int option"

record config_frequencia =
  frequencia_maxima :: "(string \<times> regra_frequencia) list option"
  intervalo_minimo_dias :: "(string \<times> int) list option"
  periodo_repeticao_proibida :: "(string \<times> int) list option"
  nao_permitir_mesmo_dia :: "string list option"

text \<open>The attributes \<^verbatim>\<open>_freq_max\<close>, \<^verbatim>\<open>_int_min\<close>, \<^verbatim>\<open>_rep_proib\<close>, \<^verbatim>\<open>_no_same_day\<close>.\<close>

record motor_frequencia =
  freq_max :: "(string \<times> regra_frequencia) list"
  int_min :: "(string \<times> int) list"
  rep_proib :: "(string \<times> int) list"
  no_same_day :: "string list"

definition PERIODOS_SUPORTADOS :: "string list" where
  "PERIODOS_SUPORTADOS = [''diario'', ''semanal'', ''mensal'', ''anual'']"

text \<open>The loop of \<^verbatim>\<open>__init__\<close> over \<^verbatim>\<open>self._freq_max.items()\<close>.\<close>

fun valida_freq_max :: "(string \<times> regra_frequencia) list \<Rightarrow> py_error + unit" where
  "valida_freq_max [] = Inr ()"
| "valida_freq_max ((tp, regra) # resto) =
     (let periodo = lower (case regra_periodo regra of None \<Rightarrow> [] | Some p \<Rightarrow> p) in
      if periodo \<notin> set PERIODOS_SUPORTADOS then Inl (ValueError (PeriodoInvalido tp periodo))
      else
        let qtd = regra_quantidade regra in
        if (case qtd of None \<Rightarrow> True | Some q \<Rightarrow> q < 0)
        then Inl (ValueError (QuantidadeInvalida tp qtd))
        else valida_freq_max resto)"

text \<open>
  \<^verbatim>\<open>__init__(config)\<close>, called with a dictionary or with nothing; the branch that
  reads \<^verbatim>\<open>config_path\<close> from disk is not part of the model.
\<close>

definition RegraMotorFrequencia_init :: "config_frequencia option \<Rightarrow> py_error + motor_frequencia" where
  "RegraMotorFrequencia_init config = (case config of
       None \<Rightarrow> Inl (ValueError ConfigAusente)
     | Some c \<Rightarrow>
         let fm = (case frequencia_maxima c of None \<Rightarrow> [] | Some m \<Rightarrow> m);
             im = (case intervalo_minimo_dias c of None \<Rightarrow> [] | Some m \<Rightarrow> m);
             rp = (case periodo_repeticao_proibida c of None \<Rightarrow> [] | Some m \<Rightarrow> m);
             ns = (case nao_permitir_mesmo_dia c of None \<Rightarrow> [] | Some l \<Rightarrow> l)
         in py_bind (valida_freq_max fm)
              (\<lambda>_. Inr \<lparr>freq_max = fm, int_min = im, rep_proib = rp, no_same_day = ns\<rparr>))"

definition week_year_key :: "date \<Rightarrow> int \<times> int" where
  "week_year_key dt = (case isocalendar dt of (iso_year, iso_week, _) \<Rightarrow> (iso_year, iso_week))"

definition month_year_key :: "date \<Rightarrow> int \<times> int" where
  "month_year_key dt = (year dt, month dt)"

definition year_key :: "date \<Rightarrow> int" where
  "year_key dt = year dt"

text \<open>The tuples that \<^verbatim>\<open>_period_key\<close> returns are lists of their components.\<close>

definition period_key :: "date \<Rightarrow> string \<Rightarrow> py_error + int list" where
  "period_key dt periodo' =
     (let periodo = lower periodo' in
      if periodo = ''diario'' then Inr [year dt, month dt, day dt]
      else if periodo = ''semanal'' then (case week_year_key dt of (a, b) \<Rightarrow> Inr [a, b])
      else if periodo = ''mensal'' then (case month_year_key dt of (a, b) \<Rightarrow> Inr [a, b])
      else if periodo = ''anual'' then Inr [year_key dt]
      else Inl (ValueError (PeriodoNaoSuportado periodo)))"

text \<open>The loop of \<^verbatim>\<open>_count_in_period\<close>, with \<open>count\<close> as its accumulator.\<close>

fun count_loop :: "sessao list \<Rightarrow> string \<Rightarrow> string \<Rightarrow> int list \<Rightarrow> int \<Rightarrow> py_error + int" where
  "count_loop [] tp periodo key_ref count = Inr count"
| "count_loop (sess # resto) tp periodo key_ref count =
     (if sessao_tipo sess \<noteq> Some tp then count_loop resto tp periodo key_ref count
      else case req ''data'' (sessao_data sess) of
          Inl e \<Rightarrow> Inl e
        | Inr v \<Rightarrow> (case parse_date v of
              Inl e \<Rightarrow> Inl e
            | Inr d \<Rightarrow> (case period_key d periodo of
                  Inl e \<Rightarrow> Inl e
                | Inr k \<Rightarrow> count_loop resto tp periodo key_ref
                            (if k = key_ref then count + 1 else count))))"

definition count_in_period :: "sessao list \<Rightarrow> string \<Rightarrow> string \<Rightarrow> date \<Rightarrow> py_error + int" where
  "count_in_period historico tp periodo data_ref =
     py_bind (period_key data_ref periodo) (\<lambda>key_ref. count_loop historico tp periodo key_ref 0)"

text \<open>The list comprehension of \<^verbatim>\<open>_last_session_date\<close>.\<close>

fun datas_ate :: "sessao list \<Rightarrow> string \<Rightarrow> date \<Rightarrow> py_error + date list" where
  "datas_ate [] tp ate_data = Inr []"
| "datas_ate (s # resto) tp ate_data =
     (if sessao_tipo s = Some tp then
        (case req ''data'' (sessao_data s) of
           Inl e \<Rightarrow> Inl e
         | Inr v \<Rightarrow> (case parse_date v of
               Inl e \<Rightarrow> Inl e
             | Inr d \<Rightarrow> (case datas_ate resto tp ate_data of
                   Inl e \<Rightarrow> Inl e
                 | Inr ds \<Rightarrow> Inr (if date_le d ate_data then d # ds else ds))))
      else datas_ate resto tp ate_data)"

text \<open>\<^verbatim>\<open>max\<close> over a non-empty list: the running maximum changes on a strictly greater item.\<close>

fun max_date :: "date \<Rightarrow> date list \<Rightarrow> date" where
  "max_date m [] = m"
| "max_date m (x # xs) = max_date (if date_gt x m then x else m) xs"

definition last_session_date :: "sessao list \<Rightarrow> string \<Rightarrow> date \<Rightarrow> py_error + date option" where
  "last_session_date historico tp ate_data =
     py_bind (datas_ate historico tp ate_data)
       (\<lambda>datas. case datas of [] \<Rightarrow> Inr None | d # ds \<Rightarrow> Inr (Some (max_date d ds)))"

fun same_day_count :: "sessao list \<Rightarrow> string \<Rightarrow> date \<Rightarrow> py_error + int" where
  "same_day_count [] tp data_ref = Inr 0"
| "same_day_count (s # resto) tp data_ref =
     (if sessao_tipo s = Some tp then
        (case req ''data'' (sessao_data s) of
           Inl e \<Rightarrow> Inl e
         | Inr v \<Rightarrow> (case parse_date v of
               Inl e \<Rightarrow> Inl e
             | Inr d \<Rightarrow> (case same_day_count resto tp data_ref of
                   Inl e \<Rightarrow> Inl e
                 | Inr n \<Rightarrow> Inr ((if d = data_ref then 1 else 0) + n))))
      else same_day_count resto tp data_ref)"

subsection \<open>The messages\<close>

text \<open>The f-strings of the four rules, one definition each.\<close>

definition msg_sem_regra :: "string \<Rightarrow> string" where
  "msg_sem_regra tp = ''Sem regra de frequ'' @ e_circ @ ''ncia configurada para '' @ aspas @ tp @ aspas @ ''.''"

definition msg_frequencia_ok :: "int \<Rightarrow> int \<Rightarrow> string \<Rightarrow> string" where
  "msg_frequencia_ok total_pos_exec limite periodo =
     ''Frequ'' @ e_circ @ ''ncia OK: '' @ str_int total_pos_exec @ ''/'' @ str_int limite
     @ '' no per'' @ i_agudo @ ''odo '' @ periodo @ ''.''"

definition msg_excede_frequencia :: "int \<Rightarrow> int \<Rightarrow> string \<Rightarrow> string" where
  "msg_excede_frequencia total_pos_exec limite periodo =
     ''Excede frequ'' @ e_circ @ ''ncia: '' @ str_int total_pos_exec @ ''/'' @ str_int limite
     @ '' no per'' @ i_agudo @ ''odo '' @ periodo @ ''.''"

definition msg_sem_intervalo :: "string \<Rightarrow> string" where
  "msg_sem_intervalo tp = ''Sem intervalo m'' @ i_agudo @ ''nimo configurado para '' @ aspas @ tp @ aspas @ ''.''"

definition msg_sem_anteriores :: string where
  "msg_sem_anteriores = ''N'' @ a_til @ ''o h'' @ a_agudo @ '' sess'' @ o_til
     @ ''es anteriores; intervalo m'' @ i_agudo @ ''nimo atendido.''"

definition msg_intervalo_nao_atendido :: "int \<Rightarrow> int \<Rightarrow> string" where
  "msg_intervalo_nao_atendido dias min_days =
     ''Intervalo n'' @ a_til @ ''o atendido: '' @ str_int dias @ ''d desde a '' @ u_agudo
     @ ''ltima; m'' @ i_agudo @ ''nimo exigido: '' @ str_int min_days @ ''d.''"

definition msg_intervalo_atendido :: "int \<Rightarrow> int \<Rightarrow> string" where
  "msg_intervalo_atendido dias min_days =
     ''Intervalo atendido: '' @ str_int dias @ ''d '' @ maior_igual @ '' '' @ str_int min_days @ ''d.''"

definition msg_sem_janela :: "string \<Rightarrow> string" where
  "msg_sem_janela tp = ''Sem janela de repeti'' @ c_cedilha @ a_til @ ''o proibida para '' @ aspas @ tp @ aspas @ ''.''"

definition msg_primeira_ocorrencia :: string where
  "msg_primeira_ocorrencia = ''Primeira ocorr'' @ e_circ @ ''ncia; janela respeitada.''"

definition msg_janela_respeitada :: "int \<Rightarrow> int \<Rightarrow> string" where
  "msg_janela_respeitada dias dias_proib =
     ''Janela respeitada: '' @ str_int dias @ ''d '' @ maior_igual @ '' '' @ str_int dias_proib @ ''d.''"

definition msg_repeticao_proibida :: "int \<Rightarrow> int \<Rightarrow> string" where
  "msg_repeticao_proibida dias dias_proib =
     ''Repeti'' @ c_cedilha @ a_til @ ''o proibida: '' @ str_int dias @ ''d < '' @ str_int dias_proib
     @ ''d desde a '' @ u_agudo @ ''ltima.''"

definition msg_mesmo_dia_atendida :: string where
  "msg_mesmo_dia_atendida = ''Regra de '' @ aspas @ ''n'' @ a_til @ ''o permitir mesmo dia'' @ aspas @ '' atendida.''"

definition msg_violacao :: "int \<Rightarrow> string \<Rightarrow> string" where
  "msg_violacao total_no_dia tp =
     ''Viola'' @ c_cedilha @ a_til @ ''o: '' @ str_int total_no_dia @ '' sess'' @ o_til
     @ ''es no mesmo dia para '' @ aspas @ tp @ aspas @ ''.''"

definition msg_sem_restricao :: string where
  "msg_sem_restricao = ''Sem restri'' @ c_cedilha @ a_til @ ''o de mesmo dia para este tipo.''"

subsection \<open>The four rules\<close>

definition resultado :: "bool \<Rightarrow> string \<Rightarrow> (string \<times> pyval) list \<Rightarrow> pyval" where
  "resultado conforme msg evid =
     PDict [(''conforme'', PBool conforme), (''mensagem'', PStr msg), (''evidencias'', PDict evid)]"

definition rule_frequencia_maxima :: "motor_frequencia \<Rightarrow> contexto \<Rightarrow> py_error + pyval" where
  "rule_frequencia_maxima self ctx =
     py_bind (req ''procedimento'' (ctx_procedimento ctx)) (\<lambda>proc.
     py_bind (req ''tipo'' (tipo proc)) (\<lambda>tp.
     let qtd_solic = (case quantidade proc of None \<Rightarrow> 1 | Some q \<Rightarrow> q) in
     py_bind (req ''data_solicitacao'' (data_solicitacao proc)) (\<lambda>dv.
     py_bind (parse_date dv) (\<lambda>data_sol.
     let hist = (case historico_sessoes ctx of None \<Rightarrow> [] | Some h \<Rightarrow> h) in
     case map_of (freq_max self) tp of
       None \<Rightarrow> Inr (resultado True
           (msg_sem_regra tp)
           [(''atual_no_periodo'', PInt 0), (''limite'', PNone)])
     | Some regra \<Rightarrow>
         py_bind (req ''periodo'' (regra_periodo regra)) (\<lambda>p.
         let periodo = lower p in
         py_bind (req ''quantidade'' (regra_quantidade regra)) (\<lambda>limite.
         py_bind (count_in_period hist tp periodo data_sol) (\<lambda>atual.
         let total_pos_exec = atual + qtd_solic;
             conforme = (total_pos_exec \<le> limite);
             msg = (if conforme
                    then msg_frequencia_ok total_pos_exec limite periodo
                    else msg_excede_frequencia total_pos_exec limite periodo)
         in Inr (resultado conforme msg
              [(''periodo'', PStr periodo),
               (''consumido_no_periodo'', PInt atual),
               (''solicitado'', PInt qtd_solic),
               (''total_pos_execucao'', PInt total_pos_exec),
               (''limite'', PInt limite)]))))))))"

definition rule_intervalo_minimo :: "motor_frequencia \<Rightarrow> contexto \<Rightarrow> py_error + pyval" where
  "rule_intervalo_minimo self ctx =
     py_bind (req ''procedimento'' (ctx_procedimento ctx)) (\<lambda>proc.
     py_bind (req ''tipo'' (tipo proc)) (\<lambda>tp.
     let qtd_solic = (case quantidade proc of None \<Rightarrow> 1 | Some q \<Rightarrow> q) in
     py_bind (req ''data_solicitacao'' (data_solicitacao proc)) (\<lambda>dv.
     py_bind (parse_date dv) (\<lambda>data_sol.
     let hist = (case historico_sessoes ctx of None \<Rightarrow> [] | Some h \<Rightarrow> h);
         min_days = (case map_of (int_min self) tp of None \<Rightarrow> 0 | Some n \<Rightarrow> n) in
     if min_days \<le> 0 then
       Inr (resultado True
         (msg_sem_intervalo tp)
         [(''intervalo_minimo_dias'', PInt 0)])
     else
       py_bind (last_session_date hist tp data_sol) (\<lambda>last_dt'.
       case last_dt' of
         None \<Rightarrow> Inr (resultado True
           msg_sem_anteriores
           [(''intervalo_minimo_dias'', PInt min_days), (''dias_desde_ultima'', PNone)])
       | Some last_dt \<Rightarrow>
           let dias = days_between data_sol last_dt;
               conforme = (dias \<ge> min_days \<and> (qtd_solic = 1 \<or> min_days = 0));
               msg = (if \<not> conforme
                      then msg_intervalo_nao_atendido dias min_days
                      else msg_intervalo_atendido dias min_days)
           in Inr (resultado conforme msg
                [(''ultima_sessao_em'', PStr (isoformat last_dt)),
                 (''dias_desde_ultima'', PInt dias),
                 (''intervalo_minimo_dias'', PInt min_days),
                 (''quantidade_solicitada_mesmo_dia'', PInt qtd_solic)]))))))"

definition rule_repeticao_proibida :: "motor_frequencia \<Rightarrow> contexto \<Rightarrow> py_error + pyval" where
  "rule_repeticao_proibida self ctx =
     py_bind (req ''procedimento'' (ctx_procedimento ctx)) (\<lambda>proc.
     py_bind (req ''tipo'' (tipo proc)) (\<lambda>tp.
     py_bind (req ''data_solicitacao'' (data_solicitacao proc)) (\<lambda>dv.
     py_bind (parse_date dv) (\<lambda>data_sol.
     let hist = (case historico_sessoes ctx of None \<Rightarrow> [] | Some h \<Rightarrow> h);
         dias_proib = (case map_of (rep_proib self) tp of None \<Rightarrow> 0 | Some n \<Rightarrow> n) in
     if dias_proib \<le> 0 then
       Inr (resultado True
         (msg_sem_janela tp)
         [(''janela_dias'', PInt 0)])
     else
       py_bind (last_session_date hist tp data_sol) (\<lambda>last_dt'.
       case last_dt' of
         None \<Rightarrow> Inr (resultado True
           msg_primeira_ocorrencia
           [(''janela_dias'', PInt dias_proib), (''dias_desde_ultima'', PNone)])
       | Some last_dt \<Rightarrow>
           let dias = days_between data_sol last_dt;
               conforme = (dias \<ge> dias_proib);
               msg = (if conforme
                      then msg_janela_respeitada dias dias_proib
                      else msg_repeticao_proibida dias dias_proib)
           in Inr (resultado conforme msg
                [(''ultima_ocorrencia_em'', PStr (isoformat last_dt)),
                 (''dias_desde_ultima'', PInt dias),
                 (''janela_repeticao_proibida_dias'', PInt dias_proib)]))))))"

definition rule_mesmo_dia :: "motor_frequencia \<Rightarrow> contexto \<Rightarrow> py_error + pyval" where
  "rule_mesmo_dia self ctx =
     py_bind (req ''procedimento'' (ctx_procedimento ctx)) (\<lambda>proc.
     py_bind (req ''tipo'' (tipo proc)) (\<lambda>tp.
     let qtd_solic = (case quantidade proc of None \<Rightarrow> 1 | Some q \<Rightarrow> q) in
     py_bind (req ''data_solicitacao'' (data_solicitacao proc)) (\<lambda>dv.
     py_bind (parse_date dv) (\<lambda>data_sol.
     let hist = (case historico_sessoes ctx of None \<Rightarrow> [] | Some h \<Rightarrow> h) in
     if tp \<in> set (no_same_day self) then
       py_bind (same_day_count hist tp data_sol) (\<lambda>ja_realizadas_hoje.
       let total_no_dia = ja_realizadas_hoje + qtd_solic;
           conforme = (total_no_dia \<le> 1);
           msg = (if conforme
                  then msg_mesmo_dia_atendida
                  else msg_violacao total_no_dia tp)
       in Inr (resultado conforme msg
            [(''tipo'', PStr tp),
             (''ja_realizadas_no_dia'', PInt ja_realizadas_hoje),
             (''solicitadas_no_dia'', PInt qtd_solic),
             (''total_no_dia'', PInt total_no_dia)]))
     else
       Inr (resultado True
         msg_sem_restricao [])))))"

text \<open>
  \<^verbatim>\<open>validar\<close>: the dictionary literal calls the four rules in order, then the flags are
  combined.
\<close>

definition validar :: "motor_frequencia \<Rightarrow> contexto \<Rightarrow> py_error + pyval" where
  "validar self contexto =
     py_bind (rule_frequencia_maxima self contexto) (\<lambda>r1.
     py_bind (rule_intervalo_minimo self contexto) (\<lambda>r2.
     py_bind (rule_repeticao_proibida self contexto) (\<lambda>r3.
     py_bind (rule_mesmo_dia self contexto) (\<lambda>r4.
     let resultados = [(''frequencia_maxima'', r1), (''intervalo_minimo'', r2),
                       (''repeticao_proibida'', r3), (''mesmo_dia'', r4)] in
     py_bind (all_conforme (map snd resultados)) (\<lambda>conforme_geral.
     Inr (PDict [(''conforme'', PBool conforme_geral), (''regras'', PDict resultados)]))))))"

section \<open>The coverage engine (\<^verbatim>\<open>RegraMotorTEA\<close>)\<close>

text \<open>
  The configuration that \<^verbatim>\<open>__init__\<close> loads from its JSON file, with the sections the
  rules read: \<^verbatim>\<open>elegibilidade.idade_maxima\<close>, \<^verbatim>\<open>cobertura.cid_validos\<close>,
  \<^verbatim>\<open>cobertura.tipos_terapia\<close> and \<^verbatim>\<open>limites_sessoes\<close> (per type, a dictionary from
  age band to limit).
\<close>

record config_tea =
  idade_maxima :: int
  cid_validos :: "string list"
  tipos_terapia :: "string list"
  limites_sessoes :: "(string \<times> (string \<times> int) list) list"

text \<open>The messages of the three rules.\<close>

definition msg_inativo :: string where
  "msg_inativo = ''Benefici'' @ a_agudo @ ''rio inativo''"

definition msg_idade_excede :: "int \<Rightarrow> string" where
  "msg_idade_excede idade_max =
     ''Idade do benefici'' @ a_agudo @ ''rio excede o limite de '' @ str_int idade_max @ '' anos''"

definition msg_carencia :: "int \<Rightarrow> string" where
  "msg_carencia car = ''Car'' @ e_circ @ ''ncia de '' @ str_int car @ '' dias n'' @ a_til @ ''o cumprida''"

definition msg_elegivel :: string where
  "msg_elegivel = ''Benefici'' @ a_agudo @ ''rio eleg'' @ i_agudo @ ''vel''"

definition msg_cid_incompativel :: "string \<Rightarrow> string" where
  "msg_cid_incompativel c = ''CID '' @ c @ '' n'' @ a_til @ ''o compat'' @ i_agudo @ ''vel com TEA''"

definition msg_terapia_nao_coberta :: "string \<Rightarrow> string" where
  "msg_terapia_nao_coberta tp = ''Terapia '' @ aspas @ tp @ aspas @ '' n'' @ a_til @ ''o coberta para TEA''"

definition msg_compativel :: string where
  "msg_compativel = ''Procedimento compat'' @ i_agudo @ ''vel com TEA''"

definition msg_nao_parametrizado :: "string \<Rightarrow> string" where
  "msg_nao_parametrizado tp = ''Tipo de terapia '' @ aspas @ tp @ aspas @ '' n'' @ a_til @ ''o parametrizado''"

definition msg_excedem :: "int \<Rightarrow> int \<Rightarrow> string \<Rightarrow> string" where
  "msg_excedem solicitadas limite tp =
     str_int solicitadas @ '' sess'' @ o_til @ ''es excedem o limite de '' @ str_int limite
     @ '' para '' @ aspas @ tp @ aspas @ '' na faixa et'' @ a_agudo @ ''ria''"

definition msg_dentro_do_limite :: "int \<Rightarrow> string \<Rightarrow> string" where
  "msg_dentro_do_limite solicitadas tp =
     str_int solicitadas @ '' sess'' @ o_til @ ''es est'' @ a_til @ ''o dentro do limite autorizado para ''
     @ aspas @ tp @ aspas"

definition resultado_tea :: "bool \<Rightarrow> string \<Rightarrow> pyval" where
  "resultado_tea conforme msg = PDict [(''conforme'', PBool conforme), (''mensagem'', PStr msg)]"

definition regra_elegibilidade :: "config_tea \<Rightarrow> contexto \<Rightarrow> py_error + pyval" where
  "regra_elegibilidade config ctx =
     py_bind (req ''beneficiario'' (ctx_beneficiario ctx)) (\<lambda>b.
     py_bind (req ''ativo'' (ativo b)) (\<lambda>at.
     if \<not> at then Inr (resultado_tea False msg_inativo)
     else
       py_bind (req ''idade'' (idade b)) (\<lambda>idd.
       let idade_max = idade_maxima config in
       if idd > idade_max then
         Inr (resultado_tea False (msg_idade_excede idade_max))
       else
         py_bind (req ''carencia_dias'' (carencia_dias b)) (\<lambda>car.
         if car > 0 then
           Inr (resultado_tea False (msg_carencia car))
         else Inr (resultado_tea True msg_elegivel)))))"

definition regra_cobertura_tea :: "config_tea \<Rightarrow> contexto \<Rightarrow> py_error + pyval" where
  "regra_cobertura_tea config ctx =
     py_bind (req ''procedimento'' (ctx_procedimento ctx)) (\<lambda>proc.
     py_bind (req ''cid'' (cid proc)) (\<lambda>c.
     py_bind (req ''tipo'' (tipo proc)) (\<lambda>tp.
     if \<not> (\<exists>prefixo \<in> set (cid_validos config). prefix prefixo c) then
       Inr (resultado_tea False (msg_cid_incompativel c))
     else if tp \<notin> set (tipos_terapia config) then
       Inr (resultado_tea False (msg_terapia_nao_coberta tp))
     else Inr (resultado_tea True msg_compativel))))"

definition regra_limite_sessoes :: "config_tea \<Rightarrow> contexto \<Rightarrow> py_error + pyval" where
  "regra_limite_sessoes config ctx =
     py_bind (req ''beneficiario'' (ctx_beneficiario ctx)) (\<lambda>b.
     py_bind (req ''idade'' (idade b)) (\<lambda>idd.
     py_bind (req ''procedimento'' (ctx_procedimento ctx)) (\<lambda>proc.
     py_bind (req ''tipo'' (tipo proc)) (\<lambda>tp.
     py_bind (req ''quantidade'' (quantidade proc)) (\<lambda>solicitadas.
     let limites = limites_sessoes config in
     case map_of limites tp of
       None \<Rightarrow> Inr (resultado_tea False (msg_nao_parametrizado tp))
     | Some faixas \<Rightarrow>
         let faixa = (if idd \<le> 12 then ''ate_12'' else ''acima_12'');
             limite = (case map_of faixas faixa of None \<Rightarrow> 0 | Some l \<Rightarrow> l) in
         if solicitadas > limite then
           Inr (resultado_tea False (msg_excedem solicitadas limite tp))
         else
           Inr (resultado_tea True (msg_dentro_do_limite solicitadas tp)))))))"

text \<open>
  \<^verbatim>\<open>validar\<close> of the coverage engine: the loop over the registry
  \<^verbatim>\<open>elegibilidade, cobertura, limites\<close>, then the key \<^verbatim>\<open>conforme\<close> added to the same
  dictionary.
\<close>

definition validar_tea :: "config_tea \<Rightarrow> contexto \<Rightarrow> py_error + pyval" where
  "validar_tea config contexto =
     py_bind (regra_elegibilidade config contexto) (\<lambda>r1.
     py_bind (regra_cobertura_tea config contexto) (\<lambda>r2.
     py_bind (regra_limite_sessoes config contexto) (\<lambda>r3.
     let resultado = [(''elegibilidade'', r1), (''cobertura'', r2), (''limites'', r3)] in
     py_bind (all_conforme (map snd resultado)) (\<lambda>conforme.
     Inr (PDict (resultado @ [(''conforme'', PBool conforme)]))))))"

section \<open>Notions used in the statements\<close>

text \<open>The history a rule works on, and the quantity it reads, with the defaults of the source.\<close>

definition historico :: "contexto \<Rightarrow> sessao list" where
  "historico ctx = (case historico_sessoes ctx of None \<Rightarrow> [] | Some h \<Rightarrow> h)"

definition qtd_solicitada :: "procedimento \<Rightarrow> int" where
  "qtd_solicitada proc = (case quantidade proc of None \<Rightarrow> 1 | Some q \<Rightarrow> q)"

text \<open>The date of a history record, when the record has one that parses.\<close>

definition data_de :: "sessao \<Rightarrow> date option" where
  "data_de s = (case sessao_data s of
       None \<Rightarrow> None
     | Some v \<Rightarrow> (case parse_date v of Inl _ \<Rightarrow> None | Inr d \<Rightarrow> Some d))"

text \<open>A history in which every record of type \<open>tp\<close> carries a date.\<close>

definition hist_ok :: "sessao list \<Rightarrow> string \<Rightarrow> bool" where
  "hist_ok hist tp = list_all (\<lambda>s. sessao_tipo s = Some tp \<longrightarrow> data_de s \<noteq> None) hist"

text \<open>
  The count as the specification words it: the records of the type whose period key is
  the key of the reference date.
\<close>

definition no_periodo :: "string \<Rightarrow> string \<Rightarrow> date \<Rightarrow> sessao \<Rightarrow> bool" where
  "no_periodo tp periodo data_ref s =
     (sessao_tipo s = Some tp \<and>
      (case data_de s of None \<Rightarrow> False
       | Some d \<Rightarrow> period_key d periodo = period_key data_ref periodo))"

definition count_spec :: "sessao list \<Rightarrow> string \<Rightarrow> string \<Rightarrow> date \<Rightarrow> int" where
  "count_spec hist tp periodo data_ref = int (length (filter (no_periodo tp periodo data_ref) hist))"

text \<open>
  Two dates lie in the same ISO week when the Monday on or before them is the same day
  (\<^verbatim>\<open>weekday()\<close> counts from Monday = 0).
\<close>

definition monday_of :: "date \<Rightarrow> int" where
  "monday_of dt = toordinal dt - weekday dt"

definition same_iso_week :: "date \<Rightarrow> date \<Rightarrow> bool" where
  "same_iso_week a b = (monday_of a = monday_of b)"

text \<open>
  A request the frequency engine can read: the procedure is there with its type and a
  request date that parses, and every history record of that type carries a date.
\<close>

definition contexto_ok_freq :: "contexto \<Rightarrow> bool" where
  "contexto_ok_freq ctx = (case ctx_procedimento ctx of
       None \<Rightarrow> False
     | Some proc \<Rightarrow> (case tipo proc of
           None \<Rightarrow> False
         | Some tp \<Rightarrow> (case data_solicitacao proc of
               None \<Rightarrow> False
             | Some dv \<Rightarrow> (case parse_date dv of
                   Inl _ \<Rightarrow> False
                 | Inr _ \<Rightarrow> hist_ok (historico ctx) tp))))"

text \<open>A request the coverage engine can read: every field it looks up is there.\<close>

definition contexto_ok_tea :: "contexto \<Rightarrow> bool" where
  "contexto_ok_tea ctx = (case ctx_beneficiario ctx of
       None \<Rightarrow> False
     | Some b \<Rightarrow> ativo b \<noteq> None \<and> idade b \<noteq> None \<and> carencia_dias b \<noteq> None \<and>
         (case ctx_procedimento ctx of
            None \<Rightarrow> False
          | Some proc \<Rightarrow> cid proc \<noteq> None \<and> tipo proc \<noteq> None \<and> quantidade proc \<noteq> None))"

text \<open>The errors that a request, not the configuration, can cause.\<close>

definition erro_de_contexto :: "py_error \<Rightarrow> bool" where
  "erro_de_contexto e = (case e of
       KeyError k \<Rightarrow> k \<in> set [''procedimento'', ''tipo'', ''data_solicitacao'', ''data'']
     | TypeError \<Rightarrow> False
     | ValueError v \<Rightarrow> (case v of DataInvalida s \<Rightarrow> True | _ \<Rightarrow> False))"



text \<open>
  The dates of the sessions of a type on or before a date, in the order of the history:
  what \<open>lastOnOrBefore\<close> of the specification takes its maximum over.
\<close>

definition sessoes_ate :: "sessao list \<Rightarrow> string \<Rightarrow> date \<Rightarrow> date list" where
  "sessoes_ate hist tp ate_data =
     filter (\<lambda>x. date_le x ate_data)
       (List.map_filter data_de (filter (\<lambda>s. sessao_tipo s = Some tp) hist))"

text \<open>
  The last session: a date of that list that no date of the list exceeds.
\<close>

definition ultima_sessao :: "sessao list \<Rightarrow> string \<Rightarrow> date \<Rightarrow> date \<Rightarrow> bool" where
  "ultima_sessao hist tp ate_data m =
     (m \<in> set (sessoes_ate hist tp ate_data)
      \<and> list_all (\<lambda>x. date_le x m) (sessoes_ate hist tp ate_data))"

text \<open>
  A rule consults the history for a type when the type has a frequency entry, a positive
  minimum interval, a positive forbidden window, or is excluded from same-day sessions.
\<close>

definition consulta_historico :: "motor_frequencia \<Rightarrow> string \<Rightarrow> bool" where
  "consulta_historico self tp =
     (map_of (freq_max self) tp \<noteq> None
      \<or> 0 < (case map_of (int_min self) tp of None \<Rightarrow> 0 | Some n \<Rightarrow> n)
      \<or> 0 < (case map_of (rep_proib self) tp of None \<Rightarrow> 0 | Some n \<Rightarrow> n)
      \<or> tp \<in> set (no_same_day self))"

text \<open>
  The error of the first record of a type, in the order of the history, that has no
  \<^verbatim>\<open>data\<close> or one that does not parse.
\<close>

fun erro_historico :: "sessao list \<Rightarrow> string \<Rightarrow> py_error option" where
  "erro_historico [] tp = None"
| "erro_historico (s # resto) tp =
     (if sessao_tipo s = Some tp then
        (case sessao_data s of
           None \<Rightarrow> Some (KeyError ''data'')
         | Some v \<Rightarrow> (case parse_date v of
               Inl e \<Rightarrow> Some e
             | Inr _ \<Rightarrow> erro_historico resto tp))
      else erro_historico resto tp)"

section \<open>Example inputs\<close>

definition dia :: "int \<Rightarrow> int \<Rightarrow> int \<Rightarrow> date" where
  "dia y m d = \<lparr>year = y, month = m, day = d\<rparr>"

definition sessao_em :: "string \<Rightarrow> string \<Rightarrow> sessao" where
  "sessao_em t d = \<lparr>sessao_tipo = Some t, sessao_data = Some (DStr d)\<rparr>"

definition hist_ex :: "sessao list" where
  "hist_ex = [sessao_em ''ABA'' ''2024-03-01'', sessao_em ''Fono'' ''2024-03-02'']"

definition config_ex :: config_frequencia where
  "config_ex = \<lparr>frequencia_maxima =
        Some [(''ABA'', \<lparr>regra_periodo = Some ''Mensal'', regra_quantidade = Some 2\<rparr>)],
      intervalo_minimo_dias = Some [(''ABA'', 7)],
      periodo_repeticao_proibida = Some [(''ABA'', 2)],
      nao_permitir_mesmo_dia = Some [''Psicologia'']\<rparr>"

definition motor_ex :: motor_frequencia where
  "motor_ex = \<lparr>freq_max = [(''ABA'', \<lparr>regra_periodo = Some ''Mensal'', regra_quantidade = Some 2\<rparr>)],
      int_min = [(''ABA'', 7)], rep_proib = [(''ABA'', 2)], no_same_day = [''Psicologia'']\<rparr>"

definition pedido_ex :: "string \<Rightarrow> int option \<Rightarrow> string \<Rightarrow> procedimento" where
  "pedido_ex tp q d = \<lparr>cid = Some ''F84.0'', tipo = Some tp, quantidade = q,
      data_solicitacao = Some (DStr d)\<rparr>"

definition ctx_aba :: "int option \<Rightarrow> string \<Rightarrow> contexto" where
  "ctx_aba q d = \<lparr>ctx_beneficiario = Some \<lparr>ativo = Some False, idade = Some 10, carencia_dias = Some 0\<rparr>,
      ctx_procedimento = Some (pedido_ex ''ABA'' q d),
      historico_sessoes = Some hist_ex\<rparr>"

definition ctx_ex :: contexto where
  "ctx_ex = ctx_aba (Some 1) ''2024-03-20''"

definition tea_ex :: config_tea where
  "tea_ex = \<lparr>idade_maxima = 21, cid_validos = [''F84''], tipos_terapia = [''ABA''],
      limites_sessoes = [(''ABA'', [(''ate_12'', 8), (''acima_12'', 4)])]\<rparr>"

definition ctx_fono :: contexto where
  "ctx_fono = \<lparr>ctx_beneficiario = None,
      ctx_procedimento = Some (pedido_ex ''Fono'' None ''2024-03-20''),
      historico_sessoes = None\<rparr>"

definition regra_ex :: regra_frequencia where
  "regra_ex = \<lparr>regra_periodo = Some ''Mensal'', regra_quantidade = Some 2\<rparr>"

definition ctx_fono_data_ruim :: contexto where
  "ctx_fono_data_ruim = \<lparr>ctx_beneficiario = None,
      ctx_procedimento = Some (pedido_ex ''Fono'' None ''2024-03-20''),
      historico_sessoes = Some [sessao_em ''Fono'' ''31/12/2023'']\<rparr>"

definition relatorio_fono :: pyval where
  "relatorio_fono = PDict [(''conforme'', PBool True),
      (''regras'', PDict [
         (''frequencia_maxima'', resultado True (msg_sem_regra ''Fono'')
             [(''atual_no_periodo'', PInt 0), (''limite'', PNone)]),
         (''intervalo_minimo'', resultado True (msg_sem_intervalo ''Fono'')
             [(''intervalo_minimo_dias'', PInt 0)]),
         (''repeticao_proibida'', resultado True (msg_sem_janela ''Fono'')
             [(''janela_dias'', PInt 0)]),
         (''mesmo_dia'', resultado True msg_sem_restricao [])])]"



definition ctx_sem_tipo :: contexto where
  "ctx_sem_tipo = \<lparr>ctx_beneficiario = None,
      ctx_procedimento = Some \<lparr>cid = None, tipo = None, quantidade = None,
         data_solicitacao = Some (DStr ''2024-03-20'')\<rparr>,
      historico_sessoes = None\<rparr>"

definition hist_duas :: "sessao list" where
  "hist_duas = [sessao_em ''ABA'' ''2024-03-01'', sessao_em ''ABA'' ''2024-03-18'']"

definition ctx_duas :: contexto where
  "ctx_duas = \<lparr>ctx_beneficiario = None,
      ctx_procedimento = Some (pedido_ex ''ABA'' (Some 1) ''2024-03-20''),
      historico_sessoes = Some hist_duas\<rparr>"

definition hist_ruim :: "sessao list" where
  "hist_ruim = [sessao_em ''Fono'' ''31/12/2023'', sessao_em ''ABA'' ''2024-03-01'',
      sessao_em ''ABA'' ''01/03/2024'', \<lparr>sessao_tipo = Some ''ABA'', sessao_data = None\<rparr>]"

definition ctx_hist_ruim :: contexto where
  "ctx_hist_ruim = \<lparr>ctx_beneficiario = None,
      ctx_procedimento = Some (pedido_ex ''ABA'' (Some 1) ''2024-03-20''),
      historico_sessoes = Some hist_ruim\<rparr>"

definition ctx_sem_data :: contexto where
  "ctx_sem_data = \<lparr>ctx_beneficiario = None,
      ctx_procedimento = Some (pedido_ex ''ABA'' (Some 1) ''2024-03-20''),
      historico_sessoes = Some [sessao_em ''ABA'' ''2024-03-01'',
         \<lparr>sessao_tipo = Some ''ABA'', sessao_data = None\<rparr>, sessao_em ''ABA'' ''01/03/2024'']\<rparr>"

section \<open>Properties\<close>

subsection \<open>Sequencing and period keys\<close>

lemma py_bind_Inr [simp]: "py_bind (Inr x) f = f x"
  by (simp add: py_bind_def)

lemma py_bind_Inl [simp]: "py_bind (Inl e) f = Inl e"
  by (simp add: py_bind_def)

lemma py_bind_eq_Inr: "py_bind m f = Inr y \<longleftrightarrow> (\<exists>x. m = Inr x \<and> f x = Inr y)"
  by (cases m) simp_all

lemma req_Some [simp]: "req k (Some x) = Inr x"
  by (simp add: req_def)

lemma req_None [simp]: "req k None = Inl (KeyError k)"
  by (simp add: req_def)

lemma period_key_suportado:
  assumes "lower periodo \<in> set PERIODOS_SUPORTADOS"
  shows "\<exists>k. period_key d periodo = Inr k"
  using assms
  by (auto simp: period_key_def PERIODOS_SUPORTADOS_def Let_def week_year_key_def
      month_year_key_def split: prod.splits)

lemma data_de_Some:
  "data_de s = Some d \<longleftrightarrow> (\<exists>v. sessao_data s = Some v \<and> parse_date v = Inr d)"
  by (auto simp: data_de_def split: option.splits sum.splits)

lemma data_de_None:
  "data_de s = None \<longleftrightarrow> (sessao_data s = None \<or> (\<exists>v e. sessao_data s = Some v \<and> parse_date v = Inl e))"
  by (auto simp: data_de_def split: option.splits sum.splits)

subsection \<open>Counting in a period\<close>

lemma count_loop_spec:
  assumes "hist_ok hist tp" and "lower periodo \<in> set PERIODOS_SUPORTADOS"
    and "period_key data_ref periodo = Inr key_ref"
  shows "count_loop hist tp periodo key_ref c = Inr (c + count_spec hist tp periodo data_ref)"
  using assms(1)
proof (induction hist arbitrary: c)
  case Nil
  then show ?case by (simp add: count_spec_def)
next
  case (Cons s hist)
  from Cons.prems have ok: "hist_ok hist tp" and
    s: "sessao_tipo s = Some tp \<Longrightarrow> data_de s \<noteq> None"
    by (simp_all add: hist_ok_def)
  show ?case
  proof (cases "sessao_tipo s = Some tp")
    case False
    then show ?thesis using Cons.IH[OF ok] by (simp add: count_spec_def no_periodo_def)
  next
    case True
    with s obtain d where d: "data_de s = Some d" by auto
    then obtain v where v: "sessao_data s = Some v" "parse_date v = Inr d"
      by (auto simp: data_de_Some)
    obtain k where k: "period_key d periodo = Inr k"
      using period_key_suportado[OF assms(2)] by blast
    have "no_periodo tp periodo data_ref s \<longleftrightarrow> k = key_ref"
      using True d k assms(3) by (simp add: no_periodo_def)
    then show ?thesis
      using True v k Cons.IH[OF ok] by (simp add: count_spec_def)
  qed
qed

lemma hist_ok_append: "hist_ok (xs @ ys) tp \<longleftrightarrow> hist_ok xs tp \<and> hist_ok ys tp"
  by (simp add: hist_ok_def)

text \<open>
  Claim C9. For a supported period and a history whose records of the type carry dates,
  \<^verbatim>\<open>_count_in_period\<close> returns the number of records of that type whose period key equals
  the key of the reference date; appending one more record of the type whose date falls
  in the bucket of the reference date raises the count by exactly one.
\<close>

theorem count_in_period_counts:
  assumes "lower periodo \<in> set PERIODOS_SUPORTADOS" and "hist_ok hist tp"
    and "sessao_tipo s = Some tp" and "data_de s = Some d"
    and "period_key d periodo = period_key data_ref periodo"
  shows "count_in_period hist tp periodo data_ref = Inr (count_spec hist tp periodo data_ref)
    \<and> count_in_period (hist @ [s]) tp periodo data_ref
        = Inr (count_spec hist tp periodo data_ref + 1)"
proof -
  obtain key_ref where k: "period_key data_ref periodo = Inr key_ref"
    using period_key_suportado[OF assms(1)] by blast
  have ok': "hist_ok (hist @ [s]) tp"
    using assms(2,4) by (simp add: hist_ok_append) (simp add: hist_ok_def)
  have s: "no_periodo tp periodo data_ref s"
    using assms(3,4,5) by (simp add: no_periodo_def)
  have "count_in_period hist tp periodo data_ref = Inr (count_spec hist tp periodo data_ref)"
    using count_loop_spec[OF assms(2,1) k, of 0] k by (simp add: count_in_period_def)
  moreover have "count_in_period (hist @ [s]) tp periodo data_ref
      = Inr (count_spec (hist @ [s]) tp periodo data_ref)"
    using count_loop_spec[OF ok' assms(1) k, of 0] k by (simp add: count_in_period_def)
  moreover have "count_spec (hist @ [s]) tp periodo data_ref
      = count_spec hist tp periodo data_ref + 1"
    using s by (simp add: count_spec_def)
  ultimately show ?thesis by simp
qed

theorem count_in_period_witness:
  "count_in_period hist_ex ''ABA'' ''Mensal'' (dia 2024 3 20) = Inr 1
   \<and> count_in_period (hist_ex @ [sessao_em ''ABA'' ''2024-03-15'']) ''ABA'' ''Mensal'' (dia 2024 3 20)
       = Inr 2"
proof -
  have h1: "lower ''Mensal'' \<in> set PERIODOS_SUPORTADOS" by code_simp
  have h2: "hist_ok hist_ex ''ABA''" by code_simp
  have h3: "sessao_tipo (sessao_em ''ABA'' ''2024-03-15'') = Some ''ABA''"
    by (simp add: sessao_em_def)
  have h4: "data_de (sessao_em ''ABA'' ''2024-03-15'') = Some (dia 2024 3 15)" by code_simp
  have h5: "period_key (dia 2024 3 15) ''Mensal'' = period_key (dia 2024 3 20) ''Mensal''"
    by code_simp
  have c: "count_spec hist_ex ''ABA'' ''Mensal'' (dia 2024 3 20) = 1" by code_simp
  show ?thesis using count_in_period_counts[OF h1 h2 h3 h4 h5] c by simp
qed

subsection \<open>The last session on or before a date\<close>

lemma date_le_refl: "date_le a a"
  by (simp add: date_le_def)

lemma date_le_antisym: "date_le a b \<Longrightarrow> date_le b a \<Longrightarrow> a = (b::date)"
  by (cases a, cases b) (auto simp: date_le_def)

lemma date_le_total: "date_le a b \<or> date_le b a"
  by (auto simp: date_le_def)

lemma max_date_upper:
  assumes "date_le m u" and "\<forall>x\<in>set xs. date_le x u" and "u \<in> set (m # xs)"
  shows "max_date m xs = u"
  using assms
proof (induction xs arbitrary: m)
  case Nil
  then show ?case by simp
next
  case (Cons x xs)
  let ?m' = "if date_gt x m then x else m"
  have xu: "date_le x u" using Cons.prems(2) by simp
  have 1: "date_le ?m' u" using Cons.prems(1) xu by simp
  have 2: "\<forall>y\<in>set xs. date_le y u" using Cons.prems(2) by simp
  have 3: "u \<in> set (?m' # xs)"
  proof -
    consider "u = m" | "u = x" | "u \<in> set xs" using Cons.prems(3) by auto
    then show ?thesis
    proof cases
      case 1
      then have "\<not> date_gt x m" using xu by (simp add: date_gt_def)
      then show ?thesis using 1 by simp
    next
      case 2
      show ?thesis
      proof (cases "date_gt x m")
        case True
        then show ?thesis using 2 by simp
      next
        case False
        then have "date_le x m" by (simp add: date_gt_def)
        moreover have "date_le m x" using Cons.prems(1) 2 by simp
        ultimately have "m = x" by (rule date_le_antisym[rotated])
        then show ?thesis using 2 by simp
      qed
    next
      case 3
      then show ?thesis by simp
    qed
  qed
  show ?case using Cons.IH[OF 1 2 3] by simp
qed

lemma datas_ate_ok:
  assumes "hist_ok hist tp"
  shows "\<exists>ds. datas_ate hist tp ate = Inr ds \<and> (\<forall>d\<in>set ds. date_le d ate)
     \<and> (\<forall>s\<in>set hist. \<forall>d. sessao_tipo s = Some tp \<and> data_de s = Some d \<and> date_le d ate \<longrightarrow> d \<in> set ds)"
  using assms
proof (induction hist)
  case Nil
  then show ?case by simp
next
  case (Cons s hist)
  from Cons.prems have ok: "hist_ok hist tp" and
    s: "sessao_tipo s = Some tp \<Longrightarrow> data_de s \<noteq> None"
    by (simp_all add: hist_ok_def)
  from Cons.IH[OF ok] obtain ds where ds: "datas_ate hist tp ate = Inr ds"
    "\<forall>d\<in>set ds. date_le d ate"
    "\<forall>s\<in>set hist. \<forall>d. sessao_tipo s = Some tp \<and> data_de s = Some d \<and> date_le d ate \<longrightarrow> d \<in> set ds"
    by blast
  show ?case
  proof (cases "sessao_tipo s = Some tp")
    case False
    then show ?thesis using ds by auto
  next
    case True
    with s obtain d where d: "data_de s = Some d" by auto
    then obtain v where v: "sessao_data s = Some v" "parse_date v = Inr d"
      by (auto simp: data_de_Some)
    have "datas_ate (s # hist) tp ate = Inr (if date_le d ate then d # ds else ds)"
      using True v ds(1) by simp
    then show ?thesis using ds(2,3) d by auto
  qed
qed

lemma last_session_same_day:
  assumes "hist_ok hist tp" and "s \<in> set hist" and "sessao_tipo s = Some tp"
    and "data_de s = Some d"
  shows "last_session_date hist tp d = Inr (Some d)"
proof -
  obtain ds where ds: "datas_ate hist tp d = Inr ds" "\<forall>x\<in>set ds. date_le x d"
    "\<forall>s\<in>set hist. \<forall>x. sessao_tipo s = Some tp \<and> data_de s = Some x \<and> date_le x d \<longrightarrow> x \<in> set ds"
    using datas_ate_ok[OF assms(1)] by blast
  have mem: "d \<in> set ds" using ds(3) assms(2,3,4) date_le_refl by blast
  then obtain m xs where mx: "ds = m # xs" by (cases ds) auto
  have "max_date m xs = d"
    by (rule max_date_upper) (use ds(2) mem mx in auto)
  then show ?thesis using ds(1) mx by (simp add: last_session_date_def)
qed

lemma last_session_total:
  assumes "hist_ok hist tp"
  shows "\<exists>l. last_session_date hist tp d = Inr l"
proof -
  obtain ds where "datas_ate hist tp d = Inr ds" using datas_ate_ok[OF assms] by blast
  then show ?thesis by (cases ds) (simp_all add: last_session_date_def)
qed

subsection \<open>The shape of a rule result\<close>

lemma py_bind_InrE:
  assumes "py_bind m f = Inr y"
  obtains x where "m = Inr x" and "f x = Inr y"
  using assms by (cases m) auto

lemma resultado_ex: "\<exists>c msg ev. resultado a b d = resultado c msg ev"
  by blast

lemma resultado_tea_ex: "\<exists>c msg. resultado_tea a b = resultado_tea c msg"
  by blast

lemma rule_frequencia_maxima_resultado:
  assumes "rule_frequencia_maxima self ctx = Inr r"
  shows "\<exists>c msg ev. r = resultado c msg ev"
  using assms unfolding rule_frequencia_maxima_def Let_def
  by (auto elim!: py_bind_InrE simp: resultado_ex split: option.splits if_splits)

lemma rule_intervalo_minimo_resultado:
  assumes "rule_intervalo_minimo self ctx = Inr r"
  shows "\<exists>c msg ev. r = resultado c msg ev"
  using assms unfolding rule_intervalo_minimo_def Let_def
  by (auto elim!: py_bind_InrE simp: resultado_ex split: option.splits if_splits)

lemma rule_repeticao_proibida_resultado:
  assumes "rule_repeticao_proibida self ctx = Inr r"
  shows "\<exists>c msg ev. r = resultado c msg ev"
  using assms unfolding rule_repeticao_proibida_def Let_def
  by (auto elim!: py_bind_InrE simp: resultado_ex split: option.splits if_splits)

lemma rule_mesmo_dia_resultado:
  assumes "rule_mesmo_dia self ctx = Inr r"
  shows "\<exists>c msg ev. r = resultado c msg ev"
  using assms unfolding rule_mesmo_dia_def Let_def
  by (auto elim!: py_bind_InrE simp: resultado_ex split: option.splits if_splits)

lemma regra_elegibilidade_resultado:
  assumes "regra_elegibilidade config ctx = Inr r"
  shows "\<exists>c msg. r = resultado_tea c msg"
  using assms unfolding regra_elegibilidade_def Let_def
  by (auto elim!: py_bind_InrE simp: resultado_tea_ex split: option.splits if_splits)

lemma regra_cobertura_tea_resultado:
  assumes "regra_cobertura_tea config ctx = Inr r"
  shows "\<exists>c msg. r = resultado_tea c msg"
  using assms unfolding regra_cobertura_tea_def Let_def
  by (auto elim!: py_bind_InrE simp: resultado_tea_ex split: option.splits if_splits)

lemma regra_limite_sessoes_resultado:
  assumes "regra_limite_sessoes config ctx = Inr r"
  shows "\<exists>c msg. r = resultado_tea c msg"
  using assms unfolding regra_limite_sessoes_def Let_def
  by (auto elim!: py_bind_InrE simp: resultado_tea_ex split: option.splits if_splits)

lemma getitem_resultado [simp]: "getitem (resultado c msg ev) ''conforme'' = Inr (PBool c)"
  by (simp add: getitem_def resultado_def)

lemma getitem_resultado_tea [simp]: "getitem (resultado_tea c msg) ''conforme'' = Inr (PBool c)"
  by (simp add: getitem_def resultado_tea_def)

lemma truthy_PBool [simp]: "truthy (PBool b) = b"
  by (simp add: truthy_def)

lemma all_conforme_4:
  "all_conforme [resultado c1 m1 e1, resultado c2 m2 e2, resultado c3 m3 e3, resultado c4 m4 e4]
     = Inr (c1 \<and> c2 \<and> c3 \<and> c4)"
  by simp

lemma all_conforme_3:
  "all_conforme [resultado_tea c1 m1, resultado_tea c2 m2, resultado_tea c3 m3]
     = Inr (c1 \<and> c2 \<and> c3)"
  by simp

subsection \<open>A validated configuration and a well-formed request\<close>

lemma lower_char_idem: "lower_char (lower_char c) = lower_char c"
  by (auto simp: lower_char_def Let_def)

lemma lower_idem: "lower (lower p) = lower p"
  by (simp add: lower_def lower_char_idem)

lemma valida_freq_max_ok:
  assumes "valida_freq_max fm = Inr u" and "(tp, regra) \<in> set fm"
  shows "\<exists>p L. regra_periodo regra = Some p \<and> lower p \<in> set PERIODOS_SUPORTADOS
           \<and> regra_quantidade regra = Some L \<and> 0 \<le> L"
  using assms
proof (induction fm)
  case Nil
  then show ?case by simp
next
  case (Cons x fm)
  obtain t r where x: "x = (t, r)" by (cases x)
  from Cons.prems(1) have p: "lower (case regra_periodo r of None \<Rightarrow> [] | Some p \<Rightarrow> p) \<in> set PERIODOS_SUPORTADOS"
    and q: "\<not> (case regra_quantidade r of None \<Rightarrow> True | Some q \<Rightarrow> q < 0)"
    and rest: "valida_freq_max fm = Inr u"
    unfolding x by (simp_all add: Let_def split: if_splits)
  show ?case
  proof (cases "(tp, regra) = x")
    case True
    then have r: "r = regra" using x by simp
    have "[] \<notin> set PERIODOS_SUPORTADOS" by (simp add: PERIODOS_SUPORTADOS_def)
    then obtain pp where pp: "regra_periodo regra = Some pp"
      using p unfolding r by (cases "regra_periodo regra") (simp_all add: lower_def)
    obtain L where L: "regra_quantidade regra = Some L" "0 \<le> L"
      using q unfolding r by (cases "regra_quantidade regra") auto
    show ?thesis using p pp L unfolding r by simp
  next
    case False
    then have "(tp, regra) \<in> set fm" using Cons.prems(2) by simp
    then show ?thesis using Cons.IH[OF rest] by simp
  qed
qed

lemma init_freq_max_ok:
  assumes "RegraMotorFrequencia_init config = Inr self" and "map_of (freq_max self) tp = Some regra"
  shows "\<exists>p L. regra_periodo regra = Some p \<and> lower p \<in> set PERIODOS_SUPORTADOS
           \<and> regra_quantidade regra = Some L \<and> 0 \<le> L"
proof -
  from assms(1) obtain c where c: "config = Some c"
    by (cases config) (simp_all add: RegraMotorFrequencia_init_def)
  define fm where "fm = (case frequencia_maxima c of None \<Rightarrow> [] | Some m \<Rightarrow> m)"
  from assms(1) obtain u where u: "valida_freq_max fm = Inr u" and fm: "freq_max self = fm"
    unfolding c fm_def RegraMotorFrequencia_init_def
    by (auto simp: Let_def elim!: py_bind_InrE)
  have "(tp, regra) \<in> set fm" using assms(2) fm by (auto dest: map_of_SomeD)
  then show ?thesis by (rule valida_freq_max_ok[OF u])
qed

lemma same_day_count_total:
  assumes "hist_ok hist tp"
  shows "\<exists>n. same_day_count hist tp d = Inr n"
  using assms
proof (induction hist)
  case Nil
  then show ?case by simp
next
  case (Cons s hist)
  from Cons.prems have ok: "hist_ok hist tp" and
    s: "sessao_tipo s = Some tp \<Longrightarrow> data_de s \<noteq> None"
    by (simp_all add: hist_ok_def)
  from Cons.IH[OF ok] obtain n where n: "same_day_count hist tp d = Inr n" by blast
  show ?case
  proof (cases "sessao_tipo s = Some tp")
    case False
    then show ?thesis using n by simp
  next
    case True
    with s obtain x where "data_de s = Some x" by auto
    then obtain v where v: "sessao_data s = Some v" "parse_date v = Inr x"
      by (auto simp: data_de_Some)
    then show ?thesis using True n by simp
  qed
qed

text \<open>What a well-formed request gives the rules to read.\<close>

lemma contexto_ok_freqD:
  assumes "contexto_ok_freq ctx"
  obtains proc tp dv data_sol where "ctx_procedimento ctx = Some proc" and "tipo proc = Some tp"
    and "data_solicitacao proc = Some dv" and "parse_date dv = Inr data_sol"
    and "hist_ok (historico ctx) tp"
  using assms unfolding contexto_ok_freq_def
  by (auto split: option.splits sum.splits)

lemma rule_frequencia_maxima_total:
  assumes "RegraMotorFrequencia_init config = Inr self" and "contexto_ok_freq ctx"
  shows "\<exists>r. rule_frequencia_maxima self ctx = Inr r"
proof -
  from assms(2) obtain proc tp dv data_sol where f: "ctx_procedimento ctx = Some proc"
    "tipo proc = Some tp" "data_solicitacao proc = Some dv" "parse_date dv = Inr data_sol"
    "hist_ok (historico ctx) tp"
    by (rule contexto_ok_freqD)
  show ?thesis
  proof (cases "map_of (freq_max self) tp")
    case None
    then show ?thesis using f by (simp add: rule_frequencia_maxima_def)
  next
    case (Some regra)
    from init_freq_max_ok[OF assms(1) Some] obtain p L where
      r: "regra_periodo regra = Some p" "lower p \<in> set PERIODOS_SUPORTADOS"
         "regra_quantidade regra = Some L"
      by blast
    have "lower (lower p) \<in> set PERIODOS_SUPORTADOS" using r(2) by (simp add: lower_idem)
    then obtain k where k: "period_key data_sol (lower p) = Inr k"
      using period_key_suportado by blast
    have "count_in_period (historico ctx) tp (lower p) data_sol
        = Inr (0 + count_spec (historico ctx) tp (lower p) data_sol)"
      unfolding count_in_period_def k py_bind_Inr
      by (rule count_loop_spec[OF f(5) _ k]) (simp add: lower_idem r(2))
    then show ?thesis using f Some r
      by (simp add: rule_frequencia_maxima_def historico_def Let_def)
  qed
qed

lemma rule_intervalo_minimo_total:
  assumes "contexto_ok_freq ctx"
  shows "\<exists>r. rule_intervalo_minimo self ctx = Inr r"
proof -
  from assms obtain proc tp dv data_sol where f: "ctx_procedimento ctx = Some proc"
    "tipo proc = Some tp" "data_solicitacao proc = Some dv" "parse_date dv = Inr data_sol"
    "hist_ok (historico ctx) tp"
    by (rule contexto_ok_freqD)
  obtain l where l: "last_session_date (historico ctx) tp data_sol = Inr l"
    using last_session_total[OF f(5)] by blast
  show ?thesis using f(1-4) l
    by (cases l) (simp_all add: rule_intervalo_minimo_def historico_def Let_def)
qed

lemma rule_repeticao_proibida_total:
  assumes "contexto_ok_freq ctx"
  shows "\<exists>r. rule_repeticao_proibida self ctx = Inr r"
proof -
  from assms obtain proc tp dv data_sol where f: "ctx_procedimento ctx = Some proc"
    "tipo proc = Some tp" "data_solicitacao proc = Some dv" "parse_date dv = Inr data_sol"
    "hist_ok (historico ctx) tp"
    by (rule contexto_ok_freqD)
  obtain l where l: "last_session_date (historico ctx) tp data_sol = Inr l"
    using last_session_total[OF f(5)] by blast
  show ?thesis using f(1-4) l
    by (cases l) (simp_all add: rule_repeticao_proibida_def historico_def Let_def)
qed

lemma rule_mesmo_dia_total:
  assumes "contexto_ok_freq ctx"
  shows "\<exists>r. rule_mesmo_dia self ctx = Inr r"
proof -
  from assms obtain proc tp dv data_sol where f: "ctx_procedimento ctx = Some proc"
    "tipo proc = Some tp" "data_solicitacao proc = Some dv" "parse_date dv = Inr data_sol"
    "hist_ok (historico ctx) tp"
    by (rule contexto_ok_freqD)
  obtain n where n: "same_day_count (historico ctx) tp data_sol = Inr n"
    using same_day_count_total[OF f(5)] by blast
  show ?thesis using f(1-4) n
    by (simp add: rule_mesmo_dia_def historico_def Let_def)
qed

subsection \<open>The report of \<^verbatim>\<open>validar\<close>\<close>

lemma contexto_ok_teaD:
  assumes "contexto_ok_tea ctx"
  obtains b proc at idd car c tp q where "ctx_beneficiario ctx = Some b" and "ativo b = Some at"
    and "idade b = Some idd" and "carencia_dias b = Some car"
    and "ctx_procedimento ctx = Some proc" and "cid proc = Some c" and "tipo proc = Some tp"
    and "quantidade proc = Some q"
  using assms unfolding contexto_ok_tea_def
  by (auto split: option.splits)

lemma validar_tea_total:
  assumes "contexto_ok_tea ctx"
  shows "\<exists>rep. validar_tea config ctx = Inr rep"
proof -
  from assms obtain b proc at idd car c tp q where f: "ctx_beneficiario ctx = Some b"
    "ativo b = Some at" "idade b = Some idd" "carencia_dias b = Some car"
    "ctx_procedimento ctx = Some proc" "cid proc = Some c" "tipo proc = Some tp"
    "quantidade proc = Some q"
    by (rule contexto_ok_teaD)
  have "\<exists>r. regra_elegibilidade config ctx = Inr r"
    using f by (simp add: regra_elegibilidade_def Let_def)
  then obtain c1 m1 where r1: "regra_elegibilidade config ctx = Inr (resultado_tea c1 m1)"
    using regra_elegibilidade_resultado by blast
  have "\<exists>r. regra_cobertura_tea config ctx = Inr r"
    using f by (simp add: regra_cobertura_tea_def Let_def)
  then obtain c2 m2 where r2: "regra_cobertura_tea config ctx = Inr (resultado_tea c2 m2)"
    using regra_cobertura_tea_resultado by blast
  have "\<exists>r. regra_limite_sessoes config ctx = Inr r"
    using f by (simp add: regra_limite_sessoes_def Let_def split: option.splits)
  then obtain c3 m3 where r3: "regra_limite_sessoes config ctx = Inr (resultado_tea c3 m3)"
    using regra_limite_sessoes_resultado by blast
  show ?thesis by (simp add: validar_tea_def r1 r2 r3 Let_def)
qed

lemma validar_total:
  assumes "RegraMotorFrequencia_init config = Inr self" and "contexto_ok_freq ctx"
  shows "\<exists>rep. validar self ctx = Inr rep"
proof -
  obtain r1 where "rule_frequencia_maxima self ctx = Inr r1"
    using rule_frequencia_maxima_total[OF assms] by blast
  then obtain c1 m1 e1 where r1: "rule_frequencia_maxima self ctx = Inr (resultado c1 m1 e1)"
    using rule_frequencia_maxima_resultado by blast
  obtain r2 where "rule_intervalo_minimo self ctx = Inr r2"
    using rule_intervalo_minimo_total[OF assms(2)] by blast
  then obtain c2 m2 e2 where r2: "rule_intervalo_minimo self ctx = Inr (resultado c2 m2 e2)"
    using rule_intervalo_minimo_resultado by blast
  obtain r3 where "rule_repeticao_proibida self ctx = Inr r3"
    using rule_repeticao_proibida_total[OF assms(2)] by blast
  then obtain c3 m3 e3 where r3: "rule_repeticao_proibida self ctx = Inr (resultado c3 m3 e3)"
    using rule_repeticao_proibida_resultado by blast
  obtain r4 where "rule_mesmo_dia self ctx = Inr r4"
    using rule_mesmo_dia_total[OF assms(2)] by blast
  then obtain c4 m4 e4 where r4: "rule_mesmo_dia self ctx = Inr (resultado c4 m4 e4)"
    using rule_mesmo_dia_resultado by blast
  show ?thesis by (simp add: validar_def r1 r2 r3 r4 Let_def)
qed

lemma validar_Inr:
  assumes "validar self ctx = Inr rep"
  shows "\<exists>c1 m1 e1 c2 m2 e2 c3 m3 e3 c4 m4 e4.
      rule_frequencia_maxima self ctx = Inr (resultado c1 m1 e1)
    \<and> rule_intervalo_minimo self ctx = Inr (resultado c2 m2 e2)
    \<and> rule_repeticao_proibida self ctx = Inr (resultado c3 m3 e3)
    \<and> rule_mesmo_dia self ctx = Inr (resultado c4 m4 e4)
    \<and> rep = PDict [(''conforme'', PBool (c1 \<and> c2 \<and> c3 \<and> c4)),
         (''regras'', PDict [(''frequencia_maxima'', resultado c1 m1 e1),
            (''intervalo_minimo'', resultado c2 m2 e2),
            (''repeticao_proibida'', resultado c3 m3 e3),
            (''mesmo_dia'', resultado c4 m4 e4)])]"
proof -
  from assms obtain r1 r2 r3 r4 cg where r: "rule_frequencia_maxima self ctx = Inr r1"
    "rule_intervalo_minimo self ctx = Inr r2" "rule_repeticao_proibida self ctx = Inr r3"
    "rule_mesmo_dia self ctx = Inr r4"
    and cg: "all_conforme [r1, r2, r3, r4] = Inr cg"
    and rep: "rep = PDict [(''conforme'', PBool cg), (''regras'', PDict [(''frequencia_maxima'', r1),
       (''intervalo_minimo'', r2), (''repeticao_proibida'', r3), (''mesmo_dia'', r4)])]"
    unfolding validar_def Let_def by (elim py_bind_InrE) auto
  obtain c1 m1 e1 where 1: "r1 = resultado c1 m1 e1"
    using rule_frequencia_maxima_resultado[OF r(1)] by blast
  obtain c2 m2 e2 where 2: "r2 = resultado c2 m2 e2"
    using rule_intervalo_minimo_resultado[OF r(2)] by blast
  obtain c3 m3 e3 where 3: "r3 = resultado c3 m3 e3"
    using rule_repeticao_proibida_resultado[OF r(3)] by blast
  obtain c4 m4 e4 where 4: "r4 = resultado c4 m4 e4"
    using rule_mesmo_dia_resultado[OF r(4)] by blast
  have "cg = (c1 \<and> c2 \<and> c3 \<and> c4)" using cg unfolding 1 2 3 4 all_conforme_4 by simp
  then show ?thesis using r rep unfolding 1 2 3 4 by blast
qed

lemma validar_tea_Inr:
  assumes "validar_tea config ctx = Inr rep"
  shows "\<exists>c1 m1 c2 m2 c3 m3.
      regra_elegibilidade config ctx = Inr (resultado_tea c1 m1)
    \<and> regra_cobertura_tea config ctx = Inr (resultado_tea c2 m2)
    \<and> regra_limite_sessoes config ctx = Inr (resultado_tea c3 m3)
    \<and> rep = PDict [(''elegibilidade'', resultado_tea c1 m1), (''cobertura'', resultado_tea c2 m2),
         (''limites'', resultado_tea c3 m3), (''conforme'', PBool (c1 \<and> c2 \<and> c3))]"
proof -
  from assms obtain r1 r2 r3 cg where r: "regra_elegibilidade config ctx = Inr r1"
    "regra_cobertura_tea config ctx = Inr r2" "regra_limite_sessoes config ctx = Inr r3"
    and cg: "all_conforme [r1, r2, r3] = Inr cg"
    and rep: "rep = PDict [(''elegibilidade'', r1), (''cobertura'', r2), (''limites'', r3),
       (''conforme'', PBool cg)]"
    unfolding validar_tea_def Let_def by (elim py_bind_InrE) auto
  obtain c1 m1 where 1: "r1 = resultado_tea c1 m1"
    using regra_elegibilidade_resultado[OF r(1)] by blast
  obtain c2 m2 where 2: "r2 = resultado_tea c2 m2"
    using regra_cobertura_tea_resultado[OF r(2)] by blast
  obtain c3 m3 where 3: "r3 = resultado_tea c3 m3"
    using regra_limite_sessoes_resultado[OF r(3)] by blast
  have "cg = (c1 \<and> c2 \<and> c3)" using cg unfolding 1 2 3 all_conforme_3 by simp
  then show ?thesis using r rep unfolding 1 2 3 by blast
qed

text \<open>
  Claim C1. A report that either engine returns holds one result for every rule of its
  registry, each rule having been evaluated, also when an earlier rule is not compliant,
  and its top-level flag is the conjunction of the flags of the rules. A frequency engine
  built from a configuration that passed construction returns a report for every
  well-formed request, and so does the coverage engine.
\<close>

theorem validar_relatorio_completo:
  "(validar self ctx = Inr rep \<longrightarrow>
      (\<exists>c1 m1 e1 c2 m2 e2 c3 m3 e3 c4 m4 e4.
          rule_frequencia_maxima self ctx = Inr (resultado c1 m1 e1)
        \<and> rule_intervalo_minimo self ctx = Inr (resultado c2 m2 e2)
        \<and> rule_repeticao_proibida self ctx = Inr (resultado c3 m3 e3)
        \<and> rule_mesmo_dia self ctx = Inr (resultado c4 m4 e4)
        \<and> rep = PDict [(''conforme'', PBool (c1 \<and> c2 \<and> c3 \<and> c4)),
             (''regras'', PDict [(''frequencia_maxima'', resultado c1 m1 e1),
                (''intervalo_minimo'', resultado c2 m2 e2),
                (''repeticao_proibida'', resultado c3 m3 e3),
                (''mesmo_dia'', resultado c4 m4 e4)])]))
   \<and> (validar_tea config ctx = Inr rep' \<longrightarrow>
      (\<exists>c1 m1 c2 m2 c3 m3.
          regra_elegibilidade config ctx = Inr (resultado_tea c1 m1)
        \<and> regra_cobertura_tea config ctx = Inr (resultado_tea c2 m2)
        \<and> regra_limite_sessoes config ctx = Inr (resultado_tea c3 m3)
        \<and> rep' = PDict [(''elegibilidade'', resultado_tea c1 m1),
             (''cobertura'', resultado_tea c2 m2), (''limites'', resultado_tea c3 m3),
             (''conforme'', PBool (c1 \<and> c2 \<and> c3))]))
   \<and> (RegraMotorFrequencia_init cfg = Inr self \<and> contexto_ok_freq ctx \<longrightarrow>
      (\<exists>r. validar self ctx = Inr r))
   \<and> (contexto_ok_tea ctx \<longrightarrow> (\<exists>r. validar_tea config ctx = Inr r))"
  using validar_Inr[of self ctx rep] validar_tea_Inr[of config ctx rep']
    validar_total[of cfg self ctx] validar_tea_total[of ctx config]
  by blast

theorem validar_relatorio_witness:
  "RegraMotorFrequencia_init (Some config_ex) = Inr motor_ex
   \<and> contexto_ok_freq (ctx_aba (Some 2) ''2024-03-20'') \<and> contexto_ok_tea ctx_ex
   \<and> (\<exists>r. validar motor_ex (ctx_aba (Some 2) ''2024-03-20'') = Inr r)
   \<and> (\<exists>r. validar_tea tea_ex ctx_ex = Inr r)
   \<and> py_bind (rule_frequencia_maxima motor_ex (ctx_aba (Some 2) ''2024-03-20''))
         (\<lambda>r. getitem r ''conforme'') = Inr (PBool False)
   \<and> py_bind (regra_elegibilidade tea_ex ctx_ex) (\<lambda>r. getitem r ''conforme'')
       = Inr (PBool False)"
proof -
  have h1: "RegraMotorFrequencia_init (Some config_ex) = Inr motor_ex" by code_simp
  have h2: "contexto_ok_freq (ctx_aba (Some 2) ''2024-03-20'')" by code_simp
  have h3: "contexto_ok_tea ctx_ex" by code_simp
  have h4:
    "py_bind (rule_frequencia_maxima motor_ex (ctx_aba (Some 2) ''2024-03-20''))
         (\<lambda>r. getitem r ''conforme'') = Inr (PBool False)"
    by code_simp
  have h5: "py_bind (regra_elegibilidade tea_ex ctx_ex) (\<lambda>r. getitem r ''conforme'')
      = Inr (PBool False)"
    by code_simp
  show ?thesis
    using validar_relatorio_completo[of motor_ex "ctx_aba (Some 2) ''2024-03-20''" PNone tea_ex
        PNone "Some config_ex"]
      validar_relatorio_completo[of motor_ex ctx_ex PNone tea_ex PNone "Some config_ex"]
      h1 h2 h3 h4 h5 by blast
qed

subsection \<open>The frequency and interval rules\<close>

text \<open>
  Claim C2. For a request whose type has an entry in \<^verbatim>\<open>frequencia_maxima\<close> with
  limit \<open>L\<close> and period \<open>p\<close>, the flag of the frequency rule is
  \<open>count + requested \<le> L\<close>, where \<open>count\<close> is what \<^verbatim>\<open>_count_in_period\<close> returns
  for the history, the type, the period and the request date (so a total equal to \<open>L\<close>
  is compliant and \<open>L + 1\<close> is not); when the engine passed construction and the history
  is well formed that count is the number of records in the period. For a type with no
  entry the rule is compliant with the evidence \<^verbatim>\<open>atual_no_periodo = 0\<close>,
  \<^verbatim>\<open>limite = None\<close>.
\<close>

theorem frequencia_maxima_decisao:
  assumes "ctx_procedimento ctx = Some proc" and "tipo proc = Some tp"
    and "data_solicitacao proc = Some dv" and "parse_date dv = Inr data_sol"
  shows "(map_of (freq_max self) tp = None \<longrightarrow>
            rule_frequencia_maxima self ctx = Inr (resultado True (msg_sem_regra tp)
              [(''atual_no_periodo'', PInt 0), (''limite'', PNone)]))
     \<and> (map_of (freq_max self) tp = Some regra \<and> regra_periodo regra = Some p
          \<and> regra_quantidade regra = Some L
          \<and> count_in_period (historico ctx) tp (lower p) data_sol = Inr n \<longrightarrow>
            (\<exists>msg ev. rule_frequencia_maxima self ctx
               = Inr (resultado (n + qtd_solicitada proc \<le> L) msg ev)))
     \<and> (RegraMotorFrequencia_init cfg = Inr self \<and> hist_ok (historico ctx) tp
          \<and> map_of (freq_max self) tp = Some regra \<longrightarrow>
            (\<exists>p L msg ev. regra_periodo regra = Some p \<and> regra_quantidade regra = Some L
               \<and> rule_frequencia_maxima self ctx
                 = Inr (resultado (count_spec (historico ctx) tp (lower p) data_sol
                          + qtd_solicitada proc \<le> L) msg ev)))"
proof (intro conjI impI)
  assume "map_of (freq_max self) tp = None"
  then show "rule_frequencia_maxima self ctx = Inr (resultado True (msg_sem_regra tp)
      [(''atual_no_periodo'', PInt 0), (''limite'', PNone)])"
    using assms by (simp add: rule_frequencia_maxima_def)
next
  assume a: "map_of (freq_max self) tp = Some regra \<and> regra_periodo regra = Some p
     \<and> regra_quantidade regra = Some L
     \<and> count_in_period (historico ctx) tp (lower p) data_sol = Inr n"
  then show "\<exists>msg ev. rule_frequencia_maxima self ctx
      = Inr (resultado (n + qtd_solicitada proc \<le> L) msg ev)"
    using assms
    by (auto simp: rule_frequencia_maxima_def historico_def qtd_solicitada_def Let_def)
next
  assume a: "RegraMotorFrequencia_init cfg = Inr self \<and> hist_ok (historico ctx) tp
     \<and> map_of (freq_max self) tp = Some regra"
  then obtain p L where r: "regra_periodo regra = Some p"
    "lower p \<in> set PERIODOS_SUPORTADOS" "regra_quantidade regra = Some L"
    using init_freq_max_ok by blast
  have pp: "lower (lower p) \<in> set PERIODOS_SUPORTADOS" using r(2) by (simp add: lower_idem)
  then obtain k where k: "period_key data_sol (lower p) = Inr k"
    using period_key_suportado by blast
  have "count_in_period (historico ctx) tp (lower p) data_sol
      = Inr (0 + count_spec (historico ctx) tp (lower p) data_sol)"
    unfolding count_in_period_def k py_bind_Inr
    using a pp k by (intro count_loop_spec) simp_all
  then have "\<exists>msg ev. rule_frequencia_maxima self ctx
      = Inr (resultado (count_spec (historico ctx) tp (lower p) data_sol
               + qtd_solicitada proc \<le> L) msg ev)"
    using assms a r
    by (auto simp: rule_frequencia_maxima_def historico_def qtd_solicitada_def Let_def)
  then show "\<exists>p L msg ev. regra_periodo regra = Some p \<and> regra_quantidade regra = Some L
      \<and> rule_frequencia_maxima self ctx
        = Inr (resultado (count_spec (historico ctx) tp (lower p) data_sol
                 + qtd_solicitada proc \<le> L) msg ev)"
    using r by blast
qed


theorem frequencia_maxima_witness:
  "rule_frequencia_maxima motor_ex ctx_fono = Inr (resultado True (msg_sem_regra ''Fono'')
       [(''atual_no_periodo'', PInt 0), (''limite'', PNone)])
   \<and> count_in_period (historico ctx_ex) ''ABA'' (lower ''Mensal'') (dia 2024 3 20) = Inr 1
   \<and> (\<exists>msg ev. rule_frequencia_maxima motor_ex ctx_ex = Inr (resultado True msg ev))
   \<and> (\<exists>msg ev. rule_frequencia_maxima motor_ex (ctx_aba (Some 2) ''2024-03-20'')
         = Inr (resultado False msg ev))"
proof -
  have d: "parse_date (DStr ''2024-03-20'') = Inr (dia 2024 3 20)" by code_simp
  have f: "map_of (freq_max motor_ex) ''Fono'' = None" by code_simp
  have a: "map_of (freq_max motor_ex) ''ABA'' = Some regra_ex" by code_simp
  have p: "regra_periodo regra_ex = Some ''Mensal''" "regra_quantidade regra_ex = Some 2"
    by (simp_all add: regra_ex_def)
  have c1: "count_in_period (historico ctx_ex) ''ABA'' (lower ''Mensal'') (dia 2024 3 20) = Inr 1"
    by code_simp
  have c2: "count_in_period (historico (ctx_aba (Some 2) ''2024-03-20'')) ''ABA'' (lower ''Mensal'')
      (dia 2024 3 20) = Inr 1"
    by code_simp
  have q1: "qtd_solicitada (pedido_ex ''ABA'' (Some 1) ''2024-03-20'') = 1"
    by (simp add: qtd_solicitada_def pedido_ex_def)
  have q2: "qtd_solicitada (pedido_ex ''ABA'' (Some 2) ''2024-03-20'') = 2"
    by (simp add: qtd_solicitada_def pedido_ex_def)
  have 1: "rule_frequencia_maxima motor_ex ctx_fono = Inr (resultado True (msg_sem_regra ''Fono'')
       [(''atual_no_periodo'', PInt 0), (''limite'', PNone)])"
    using frequencia_maxima_decisao[of ctx_fono "pedido_ex ''Fono'' None ''2024-03-20''" "''Fono''"
        "DStr ''2024-03-20''" "dia 2024 3 20" motor_ex] d f
    by (simp add: ctx_fono_def pedido_ex_def)
  have 2: "\<exists>msg ev. rule_frequencia_maxima motor_ex ctx_ex = Inr (resultado True msg ev)"
    using frequencia_maxima_decisao[of ctx_ex "pedido_ex ''ABA'' (Some 1) ''2024-03-20''" "''ABA''"
        "DStr ''2024-03-20''" "dia 2024 3 20" motor_ex regra_ex "''Mensal''" 2 1] d a p c1 q1
    by (simp add: ctx_ex_def ctx_aba_def pedido_ex_def)
  have 3: "\<exists>msg ev. rule_frequencia_maxima motor_ex (ctx_aba (Some 2) ''2024-03-20'')
         = Inr (resultado False msg ev)"
    using frequencia_maxima_decisao[of "ctx_aba (Some 2) ''2024-03-20''"
        "pedido_ex ''ABA'' (Some 2) ''2024-03-20''" "''ABA''"
        "DStr ''2024-03-20''" "dia 2024 3 20" motor_ex regra_ex "''Mensal''" 2 1] d a p c2 q2
    by (simp add: ctx_aba_def pedido_ex_def)
  show ?thesis using 1 c1 2 3 by blast
qed

subsection \<open>A session on the request date\<close>

lemma days_between_self: "days_between d d = 0"
  by (simp add: days_between_def)

text \<open>
  Claim C10. The last-session lookup keeps the sessions dated on or before the request
  date, so a session of the requested type recorded on the request date itself is the
  last one and the gap is 0 days: with a strictly positive minimum interval the interval
  rule is not compliant, and with a strictly positive forbidden-repetition window the
  repetition rule is not compliant; both report \<^verbatim>\<open>dias_desde_ultima = 0\<close>.
\<close>

theorem sessao_no_mesmo_dia_nao_conforme:
  assumes "ctx_procedimento ctx = Some proc" and "tipo proc = Some tp"
    and "data_solicitacao proc = Some dv" and "parse_date dv = Inr data_sol"
    and "hist_ok (historico ctx) tp"
    and "s \<in> set (historico ctx)" and "sessao_tipo s = Some tp" and "data_de s = Some data_sol"
  shows "last_session_date (historico ctx) tp data_sol = Inr (Some data_sol)
     \<and> (map_of (int_min self) tp = Some n \<and> 0 < n \<longrightarrow>
          (\<exists>msg ev. rule_intervalo_minimo self ctx = Inr (resultado False msg ev)
             \<and> map_of ev ''dias_desde_ultima'' = Some (PInt 0)))
     \<and> (map_of (rep_proib self) tp = Some w \<and> 0 < w \<longrightarrow>
          (\<exists>msg ev. rule_repeticao_proibida self ctx = Inr (resultado False msg ev)
             \<and> map_of ev ''dias_desde_ultima'' = Some (PInt 0)))"
proof (intro conjI impI)
  show l: "last_session_date (historico ctx) tp data_sol = Inr (Some data_sol)"
    using assms(5-8) by (rule last_session_same_day)
  {
    assume "map_of (int_min self) tp = Some n \<and> 0 < n"
    then have "rule_intervalo_minimo self ctx = Inr (resultado False
        (msg_intervalo_nao_atendido 0 n)
        [(''ultima_sessao_em'', PStr (isoformat data_sol)), (''dias_desde_ultima'', PInt 0),
         (''intervalo_minimo_dias'', PInt n),
         (''quantidade_solicitada_mesmo_dia'',
          PInt (case quantidade proc of None \<Rightarrow> 1 | Some q \<Rightarrow> q))])"
      using assms(1-4) l
      by (simp add: rule_intervalo_minimo_def historico_def Let_def days_between_self)
    then show "\<exists>msg ev. rule_intervalo_minimo self ctx = Inr (resultado False msg ev)
        \<and> map_of ev ''dias_desde_ultima'' = Some (PInt 0)"
      by (intro exI conjI, assumption) simp
  }
  {
    assume "map_of (rep_proib self) tp = Some w \<and> 0 < w"
    then have "rule_repeticao_proibida self ctx = Inr (resultado False
        (msg_repeticao_proibida 0 w)
        [(''ultima_ocorrencia_em'', PStr (isoformat data_sol)), (''dias_desde_ultima'', PInt 0),
         (''janela_repeticao_proibida_dias'', PInt w)])"
      using assms(1-4) l
      by (simp add: rule_repeticao_proibida_def historico_def Let_def days_between_self)
    then show "\<exists>msg ev. rule_repeticao_proibida self ctx = Inr (resultado False msg ev)
        \<and> map_of ev ''dias_desde_ultima'' = Some (PInt 0)"
      by (intro exI conjI, assumption) simp
  }
qed

theorem sessao_no_mesmo_dia_witness:
  "hist_ok (historico (ctx_aba (Some 1) ''2024-03-01'')) ''ABA''
   \<and> sessao_em ''ABA'' ''2024-03-01'' \<in> set (historico (ctx_aba (Some 1) ''2024-03-01''))
   \<and> data_de (sessao_em ''ABA'' ''2024-03-01'') = Some (dia 2024 3 1)
   \<and> (\<exists>msg ev. rule_intervalo_minimo motor_ex (ctx_aba (Some 1) ''2024-03-01'')
          = Inr (resultado False msg ev) \<and> map_of ev ''dias_desde_ultima'' = Some (PInt 0))
   \<and> (\<exists>msg ev. rule_repeticao_proibida motor_ex (ctx_aba (Some 1) ''2024-03-01'')
          = Inr (resultado False msg ev) \<and> map_of ev ''dias_desde_ultima'' = Some (PInt 0))"
proof -
  have d: "parse_date (DStr ''2024-03-01'') = Inr (dia 2024 3 1)" by code_simp
  have h: "hist_ok (historico (ctx_aba (Some 1) ''2024-03-01'')) ''ABA''" by code_simp
  have m: "sessao_em ''ABA'' ''2024-03-01'' \<in> set (historico (ctx_aba (Some 1) ''2024-03-01''))"
    by (simp add: historico_def ctx_aba_def hist_ex_def)
  have t: "sessao_tipo (sessao_em ''ABA'' ''2024-03-01'') = Some ''ABA''"
    by (simp add: sessao_em_def)
  have dd: "data_de (sessao_em ''ABA'' ''2024-03-01'') = Some (dia 2024 3 1)" by code_simp
  have i: "map_of (int_min motor_ex) ''ABA'' = Some 7" by code_simp
  have r: "map_of (rep_proib motor_ex) ''ABA'' = Some 2" by code_simp
  have p: "ctx_procedimento (ctx_aba (Some 1) ''2024-03-01'')
      = Some (pedido_ex ''ABA'' (Some 1) ''2024-03-01'')"
    "tipo (pedido_ex ''ABA'' (Some 1) ''2024-03-01'') = Some ''ABA''"
    "data_solicitacao (pedido_ex ''ABA'' (Some 1) ''2024-03-01'') = Some (DStr ''2024-03-01'')"
    by (simp_all add: ctx_aba_def pedido_ex_def)
  show ?thesis
    using sessao_no_mesmo_dia_nao_conforme[OF p d h m t dd, of motor_ex 7 2] h m dd i r
    by simp
qed

subsection \<open>Message and evidence of a rule result\<close>

lemma resultado_inject [simp]:
  "resultado c msg ev = resultado c' msg' ev' \<longleftrightarrow> c = c' \<and> msg = msg' \<and> ev = ev'"
  by (auto simp: resultado_def)









subsection \<open>The errors of a call\<close>


lemma strptime_Inl:
  assumes "strptime s = Inl e"
  shows "e = ValueError (DataInvalida s)"
  using assms unfolding strptime_def
  by (auto split: list.splits prod.splits if_splits)








lemma req_Inl: "req k v = Inl e \<Longrightarrow> e = KeyError k"
  by (cases v) simp_all

lemma pedido_Inl:
  assumes "k \<in> set [''procedimento'', ''tipo'', ''data_solicitacao'', ''data'']"
    and "req k v = Inl e"
  shows "erro_de_contexto e"
  using assms by (cases v) (auto simp: erro_de_contexto_def)


lemma KeyError_contexto [simp]:
  "erro_de_contexto (KeyError ''procedimento'')" "erro_de_contexto (KeyError ''tipo'')"
  "erro_de_contexto (KeyError ''data_solicitacao'')" "erro_de_contexto (KeyError ''data'')"
  by (simp_all add: erro_de_contexto_def)






subsection \<open>Construction of the frequency engine\<close>








subsection \<open>Missing fields and dates that do not parse\<close>

lemma validar_rule1_Inl:
  assumes "rule_frequencia_maxima self ctx = Inl e"
  shows "validar self ctx = Inl e"
  using assms by (simp add: validar_def)

lemma quantidade_padrao:
  assumes "ctx_procedimento ctx = Some proc" and "quantidade proc = None"
  shows "validar self ctx
     = validar self (ctx\<lparr>ctx_procedimento := Some (proc\<lparr>quantidade := Some 1\<rparr>)\<rparr>)"
  using assms
  by (simp add: validar_def rule_frequencia_maxima_def rule_intervalo_minimo_def
      rule_repeticao_proibida_def rule_mesmo_dia_def)

lemma historico_padrao:
  assumes "historico_sessoes ctx = None"
  shows "validar self ctx = validar self (ctx\<lparr>historico_sessoes := Some []\<rparr>)"
  using assms
  by (simp add: validar_def rule_frequencia_maxima_def rule_intervalo_minimo_def
      rule_repeticao_proibida_def rule_mesmo_dia_def)

lemma validar_tea_sem_quantidade:
  assumes "ctx_beneficiario ctx = Some b" and "ativo b = Some at" and "idade b = Some idd"
    and "carencia_dias b = Some car" and "ctx_procedimento ctx = Some proc"
    and "cid proc = Some c" and "tipo proc = Some tp" and "quantidade proc = None"
  shows "validar_tea config ctx = Inl (KeyError ''quantidade'')"
proof -
  have "\<exists>r. regra_elegibilidade config ctx = Inr r"
    using assms by (simp add: regra_elegibilidade_def Let_def)
  moreover have "\<exists>r. regra_cobertura_tea config ctx = Inr r"
    using assms by (simp add: regra_cobertura_tea_def Let_def)
  moreover have "regra_limite_sessoes config ctx = Inl (KeyError ''quantidade'')"
    using assms by (simp add: regra_limite_sessoes_def)
  ultimately show ?thesis by (auto simp: validar_tea_def)
qed

text \<open>Records of other types are skipped before their dates are read.\<close>

lemma count_loop_filter:
  "count_loop (filter (\<lambda>s. sessao_tipo s = Some tp) hist) tp p k c = count_loop hist tp p k c"
  by (induction hist arbitrary: c) (auto split: sum.splits)

lemma count_in_period_filter:
  "count_in_period (filter (\<lambda>s. sessao_tipo s = Some tp) hist) tp p d
     = count_in_period hist tp p d"
  by (simp add: count_in_period_def count_loop_filter)

lemma datas_ate_filter:
  "datas_ate (filter (\<lambda>s. sessao_tipo s = Some tp) hist) tp d = datas_ate hist tp d"
  by (induction hist) (auto split: sum.splits)

lemma last_session_date_filter:
  "last_session_date (filter (\<lambda>s. sessao_tipo s = Some tp) hist) tp d
     = last_session_date hist tp d"
  by (simp add: last_session_date_def datas_ate_filter)

lemma same_day_count_filter:
  "same_day_count (filter (\<lambda>s. sessao_tipo s = Some tp) hist) tp d = same_day_count hist tp d"
  by (induction hist) (auto split: sum.splits)

text \<open>A function that reads the history fails at the first record it cannot read.\<close>

lemma count_loop_erro:
  assumes "lower p \<in> set PERIODOS_SUPORTADOS" and "erro_historico hist tp = Some e"
  shows "count_loop hist tp p k c = Inl e"
  using assms(2)
proof (induction hist arbitrary: c)
  case Nil
  then show ?case by simp
next
  case (Cons s hist)
  show ?case
  proof (cases "sessao_tipo s = Some tp")
    case False
    then show ?thesis using Cons by simp
  next
    case True
    show ?thesis
    proof (cases "sessao_data s")
      case None
      then show ?thesis using Cons.prems True by simp
    next
      case (Some v)
      show ?thesis
      proof (cases "parse_date v")
        case (Inl a)
        then show ?thesis using Cons.prems True Some by simp
      next
        case (Inr d)
        obtain kk where kk: "period_key d p = Inr kk"
          using period_key_suportado[OF assms(1)] by blast
        show ?thesis using Cons.prems True Some Inr kk Cons.IH by simp
      qed
    qed
  qed
qed

lemma datas_ate_erro:
  assumes "erro_historico hist tp = Some e"
  shows "datas_ate hist tp d = Inl e"
  using assms
  by (induction hist) (auto split: if_splits option.splits sum.splits)

lemma same_day_count_erro:
  assumes "erro_historico hist tp = Some e"
  shows "same_day_count hist tp d = Inl e"
  using assms
  by (induction hist) (auto split: if_splits option.splits sum.splits)

lemma erro_historico_tipo:
  assumes "erro_historico hist tp = Some e"
  shows "e = KeyError ''data'' \<or> (\<exists>s. e = ValueError (DataInvalida s))"
  using assms
proof (induction hist)
  case Nil
  then show ?case by simp
next
  case (Cons s hist)
  show ?case
  proof (cases "sessao_tipo s = Some tp")
    case False
    then show ?thesis using Cons by simp
  next
    case True
    show ?thesis
    proof (cases "sessao_data s")
      case None
      then show ?thesis using Cons.prems True by simp
    next
      case (Some v)
      show ?thesis
      proof (cases "parse_date v")
        case (Inl a)
        then have "e = a" using Cons.prems True Some by simp
        moreover have "\<exists>s. a = ValueError (DataInvalida s)"
          using Inl strptime_Inl by (cases v) (auto simp: parse_date_def)
        ultimately show ?thesis by simp
      next
        case (Inr d)
        then show ?thesis using Cons True Some by simp
      qed
    qed
  qed
qed

text \<open>The rules, one by one: what each does with the history.\<close>

lemma regras_filtro:
  assumes "ctx_procedimento ctx = Some proc" and "tipo proc = Some tp"
  defines "ctx' \<equiv> ctx\<lparr>historico_sessoes :=
     Some (filter (\<lambda>s. sessao_tipo s = Some tp) (historico ctx))\<rparr>"
  shows "rule_frequencia_maxima self ctx' = rule_frequencia_maxima self ctx"
    and "rule_intervalo_minimo self ctx' = rule_intervalo_minimo self ctx"
    and "rule_repeticao_proibida self ctx' = rule_repeticao_proibida self ctx"
    and "rule_mesmo_dia self ctx' = rule_mesmo_dia self ctx"
  using assms(1,2) unfolding ctx'_def
  by (simp_all add: rule_frequencia_maxima_def rule_intervalo_minimo_def
      rule_repeticao_proibida_def rule_mesmo_dia_def historico_def count_in_period_filter
      last_session_date_filter same_day_count_filter Let_def cong: option.case_cong if_cong)

lemma validar_filtro:
  assumes "ctx_procedimento ctx = Some proc" and "tipo proc = Some tp"
  shows "validar self (ctx\<lparr>historico_sessoes :=
       Some (filter (\<lambda>s. sessao_tipo s = Some tp) (historico ctx))\<rparr>) = validar self ctx"
  unfolding validar_def regras_filtro[OF assms] by (rule refl)

lemma regras_sem_consulta:
  assumes "ctx_procedimento ctx = Some proc" and "tipo proc = Some tp"
    and "\<not> consulta_historico self tp"
  shows "rule_frequencia_maxima self (ctx\<lparr>historico_sessoes := h\<rparr>)
       = rule_frequencia_maxima self ctx"
    and "rule_intervalo_minimo self (ctx\<lparr>historico_sessoes := h\<rparr>)
       = rule_intervalo_minimo self ctx"
    and "rule_repeticao_proibida self (ctx\<lparr>historico_sessoes := h\<rparr>)
       = rule_repeticao_proibida self ctx"
    and "rule_mesmo_dia self (ctx\<lparr>historico_sessoes := h\<rparr>) = rule_mesmo_dia self ctx"
proof -
  from assms(3) have n: "map_of (freq_max self) tp = None"
    "(case map_of (int_min self) tp of None \<Rightarrow> 0 | Some n \<Rightarrow> n) \<le> 0"
    "(case map_of (rep_proib self) tp of None \<Rightarrow> 0 | Some n \<Rightarrow> n) \<le> 0"
    "tp \<notin> set (no_same_day self)"
    by (auto simp: consulta_historico_def)
  show "rule_frequencia_maxima self (ctx\<lparr>historico_sessoes := h\<rparr>)
       = rule_frequencia_maxima self ctx"
    using assms(1,2) n(1) by (simp add: rule_frequencia_maxima_def)
  show "rule_intervalo_minimo self (ctx\<lparr>historico_sessoes := h\<rparr>)
       = rule_intervalo_minimo self ctx"
    using assms(1,2) n(2) by (simp add: rule_intervalo_minimo_def Let_def)
  show "rule_repeticao_proibida self (ctx\<lparr>historico_sessoes := h\<rparr>)
       = rule_repeticao_proibida self ctx"
    using assms(1,2) n(3) by (simp add: rule_repeticao_proibida_def Let_def)
  show "rule_mesmo_dia self (ctx\<lparr>historico_sessoes := h\<rparr>) = rule_mesmo_dia self ctx"
    using assms(1,2) n(4) by (simp add: rule_mesmo_dia_def Let_def)
qed

lemma validar_sem_consulta:
  assumes "ctx_procedimento ctx = Some proc" and "tipo proc = Some tp"
    and "\<not> consulta_historico self tp"
  shows "validar self (ctx\<lparr>historico_sessoes := h\<rparr>) = validar self ctx"
  unfolding validar_def regras_sem_consulta[OF assms] by (rule refl)

lemma validar_erro_historico:
  assumes init: "RegraMotorFrequencia_init cfg = Inr self"
    and f: "ctx_procedimento ctx = Some proc" "tipo proc = Some tp"
      "data_solicitacao proc = Some dv" "parse_date dv = Inr data_sol"
    and c: "consulta_historico self tp"
    and e: "erro_historico (historico ctx) tp = Some e"
  shows "validar self ctx = Inl e"
proof (cases "map_of (freq_max self) tp")
  case (Some regra)
  from init_freq_max_ok[OF init Some] obtain p L where
    r: "regra_periodo regra = Some p" "lower p \<in> set PERIODOS_SUPORTADOS"
       "regra_quantidade regra = Some L"
    by blast
  have pp: "lower (lower p) \<in> set PERIODOS_SUPORTADOS" using r(2) by (simp add: lower_idem)
  obtain k where k: "period_key data_sol (lower p) = Inr k"
    using period_key_suportado[OF pp] by blast
  have "count_in_period (historico ctx) tp (lower p) data_sol = Inl e"
    unfolding count_in_period_def k py_bind_Inr by (rule count_loop_erro[OF pp e])
  then have "rule_frequencia_maxima self ctx = Inl e"
    using f Some r by (simp add: rule_frequencia_maxima_def historico_def Let_def)
  then show ?thesis by (rule validar_rule1_Inl)
next
  case None
  then obtain r1 where r1: "rule_frequencia_maxima self ctx = Inr r1"
    using f by (simp add: rule_frequencia_maxima_def)
  have l: "last_session_date (historico ctx) tp data_sol = Inl e"
    using datas_ate_erro[OF e] by (simp add: last_session_date_def)
  show ?thesis
  proof (cases "0 < (case map_of (int_min self) tp of None \<Rightarrow> 0 | Some n \<Rightarrow> n)")
    case True
    then have "rule_intervalo_minimo self ctx = Inl e"
      using f l by (simp add: rule_intervalo_minimo_def historico_def Let_def)
    then show ?thesis using r1 by (simp add: validar_def)
  next
    case i: False
    then obtain r2 where r2: "rule_intervalo_minimo self ctx = Inr r2"
      using f by (simp add: rule_intervalo_minimo_def Let_def)
    show ?thesis
    proof (cases "0 < (case map_of (rep_proib self) tp of None \<Rightarrow> 0 | Some n \<Rightarrow> n)")
      case True
      then have "rule_repeticao_proibida self ctx = Inl e"
        using f l by (simp add: rule_repeticao_proibida_def historico_def Let_def)
      then show ?thesis using r1 r2 by (simp add: validar_def)
    next
      case w: False
      then obtain r3 where r3: "rule_repeticao_proibida self ctx = Inr r3"
        using f by (simp add: rule_repeticao_proibida_def Let_def)
      have "tp \<in> set (no_same_day self)"
        using c None i w by (simp add: consulta_historico_def)
      then have "rule_mesmo_dia self ctx = Inl e"
        using f same_day_count_erro[OF e]
        by (simp add: rule_mesmo_dia_def historico_def Let_def)
      then show ?thesis using r1 r2 r3 by (simp add: validar_def)
    qed
  qed
qed

lemma erro_historico_append:
  assumes "hist_ok pre tp"
  shows "erro_historico (pre @ resto) tp = erro_historico resto tp"
  using assms
  by (induction pre) (auto simp: hist_ok_def data_de_def split: option.splits sum.splits)

lemma validar_sem_data:
  assumes "RegraMotorFrequencia_init cfg = Inr self"
    and "ctx_procedimento ctx = Some proc" and "tipo proc = Some tp"
    and "data_solicitacao proc = Some dv" and "parse_date dv = Inr data_sol"
    and "consulta_historico self tp"
    and "historico ctx = pre @ reg # pos" and "hist_ok pre tp"
    and "sessao_tipo reg = Some tp" and "sessao_data reg = None"
  shows "validar self ctx = Inl (KeyError ''data'')"
proof -
  have "erro_historico (historico ctx) tp = Some (KeyError ''data'')"
    using assms(7-10) by (simp add: erro_historico_append)
  then show ?thesis by (rule validar_erro_historico[OF assms(1-6)])
qed

lemma validar_data_historico_invalida:
  assumes "RegraMotorFrequencia_init cfg = Inr self"
    and "ctx_procedimento ctx = Some proc" and "tipo proc = Some tp"
    and "data_solicitacao proc = Some dv" and "parse_date dv = Inr data_sol"
    and "consulta_historico self tp"
    and "historico ctx = pre @ reg # pos" and "hist_ok pre tp"
    and "sessao_tipo reg = Some tp" and "sessao_data reg = Some (DStr valor)"
    and "strptime valor = Inl e"
  shows "validar self ctx = Inl (ValueError (DataInvalida valor))"
proof -
  have "e = ValueError (DataInvalida valor)" using assms(11) strptime_Inl by blast
  then have "erro_historico (historico ctx) tp = Some (ValueError (DataInvalida valor))"
    using assms(7-11) by (simp add: erro_historico_append parse_date_def)
  then show ?thesis by (rule validar_erro_historico[OF assms(1-6)])
qed

text \<open>
  Claim C7, as the code has it. A call of \<^verbatim>\<open>validar\<close> ends in an error or in a
  complete report, never a partial one. In the frequency engine a request without
  \<^verbatim>\<open>procedimento\<close>, \<^verbatim>\<open>tipo\<close> or \<^verbatim>\<open>data_solicitacao\<close> fails with the
  \<^verbatim>\<open>KeyError\<close> of that key, and a request date that does not parse fails with the
  \<^verbatim>\<open>ValueError\<close> of that string; a missing \<^verbatim>\<open>quantidade\<close> is read as 1 and a
  missing \<^verbatim>\<open>historico_sessoes\<close> as the empty history, so neither fails the call. In
  the coverage engine a request that lacks only \<^verbatim>\<open>quantidade\<close> fails with
  \<^verbatim>\<open>KeyError\<close> of that key.

  The history is read only for the requested type and only by a rule that is configured
  for it. The records of other types can be dropped without changing the outcome, and when
  no rule consults the history for the type the outcome is the same for every history.
  When the engine was constructed from a configuration, the request reads and a rule
  consults the history, the call fails at the first record of the type that cannot be
  read: with \<^verbatim>\<open>KeyError\<close> of \<^verbatim>\<open>data\<close> when the record has no date, with the
  \<^verbatim>\<open>ValueError\<close> of its string when the date does not parse.
\<close>

theorem falha_ou_relatorio_completo:
  "(ctx_procedimento ctx = None \<longrightarrow> validar self ctx = Inl (KeyError ''procedimento''))
   \<and> (ctx_procedimento ctx = Some proc \<and> tipo proc = None \<longrightarrow>
        validar self ctx = Inl (KeyError ''tipo''))
   \<and> (ctx_procedimento ctx = Some proc \<and> tipo proc = Some tp \<and> data_solicitacao proc = None \<longrightarrow>
        validar self ctx = Inl (KeyError ''data_solicitacao''))
   \<and> (ctx_procedimento ctx = Some proc \<and> tipo proc = Some tp
        \<and> data_solicitacao proc = Some (DStr s) \<and> strptime s = Inl e \<longrightarrow>
        validar self ctx = Inl (ValueError (DataInvalida s)))
   \<and> (ctx_procedimento ctx = Some proc \<and> quantidade proc = None \<longrightarrow>
        validar self ctx
          = validar self (ctx\<lparr>ctx_procedimento := Some (proc\<lparr>quantidade := Some 1\<rparr>)\<rparr>))
   \<and> (historico_sessoes ctx = None \<longrightarrow>
        validar self ctx = validar self (ctx\<lparr>historico_sessoes := Some []\<rparr>))
   \<and> (ctx_beneficiario ctx = Some b \<and> ativo b = Some at \<and> idade b = Some idd
        \<and> carencia_dias b = Some car \<and> ctx_procedimento ctx = Some proc \<and> cid proc = Some c
        \<and> tipo proc = Some tp \<and> quantidade proc = None \<longrightarrow>
        validar_tea config ctx = Inl (KeyError ''quantidade''))
   \<and> (validar self ctx = Inr rep \<longrightarrow>
        (\<exists>g c1 m1 e1 c2 m2 e2 c3 m3 e3 c4 m4 e4.
           rep = PDict [(''conforme'', PBool g),
             (''regras'', PDict [(''frequencia_maxima'', resultado c1 m1 e1),
                (''intervalo_minimo'', resultado c2 m2 e2),
                (''repeticao_proibida'', resultado c3 m3 e3),
                (''mesmo_dia'', resultado c4 m4 e4)])]))
   \<and> (validar_tea config ctx = Inr rep' \<longrightarrow>
        (\<exists>g c1 m1 c2 m2 c3 m3.
           rep' = PDict [(''elegibilidade'', resultado_tea c1 m1),
             (''cobertura'', resultado_tea c2 m2), (''limites'', resultado_tea c3 m3),
             (''conforme'', PBool g)]))
   \<and> (ctx_procedimento ctx = Some proc \<and> tipo proc = Some tp \<longrightarrow>
        validar self (ctx\<lparr>historico_sessoes :=
            Some (filter (\<lambda>r. sessao_tipo r = Some tp) (historico ctx))\<rparr>)
          = validar self ctx)
   \<and> (ctx_procedimento ctx = Some proc \<and> tipo proc = Some tp
        \<and> \<not> consulta_historico self tp \<longrightarrow>
        validar self (ctx\<lparr>historico_sessoes := h\<rparr>) = validar self ctx)
   \<and> (RegraMotorFrequencia_init cfg = Inr self
        \<and> ctx_procedimento ctx = Some proc \<and> tipo proc = Some tp
        \<and> data_solicitacao proc = Some dv \<and> parse_date dv = Inr data_sol
        \<and> consulta_historico self tp
        \<and> historico ctx = pre @ reg # pos \<and> hist_ok pre tp
        \<and> sessao_tipo reg = Some tp \<and> sessao_data reg = None \<longrightarrow>
        validar self ctx = Inl (KeyError ''data''))
   \<and> (RegraMotorFrequencia_init cfg = Inr self
        \<and> ctx_procedimento ctx = Some proc \<and> tipo proc = Some tp
        \<and> data_solicitacao proc = Some dv \<and> parse_date dv = Inr data_sol
        \<and> consulta_historico self tp
        \<and> historico ctx = pre @ reg # pos \<and> hist_ok pre tp
        \<and> sessao_tipo reg = Some tp \<and> sessao_data reg = Some (DStr valor)
        \<and> strptime valor = Inl e' \<longrightarrow>
        validar self ctx = Inl (ValueError (DataInvalida valor)))"
proof (intro conjI impI)
  assume "ctx_procedimento ctx = None"
  then show "validar self ctx = Inl (KeyError ''procedimento'')"
    by (intro validar_rule1_Inl) (simp add: rule_frequencia_maxima_def)
next
  assume "ctx_procedimento ctx = Some proc \<and> tipo proc = None"
  then show "validar self ctx = Inl (KeyError ''tipo'')"
    by (intro validar_rule1_Inl) (simp add: rule_frequencia_maxima_def)
next
  assume "ctx_procedimento ctx = Some proc \<and> tipo proc = Some tp \<and> data_solicitacao proc = None"
  then show "validar self ctx = Inl (KeyError ''data_solicitacao'')"
    by (intro validar_rule1_Inl) (simp add: rule_frequencia_maxima_def Let_def)
next
  assume a: "ctx_procedimento ctx = Some proc \<and> tipo proc = Some tp
    \<and> data_solicitacao proc = Some (DStr s) \<and> strptime s = Inl e"
  then have "e = ValueError (DataInvalida s)" using strptime_Inl by blast
  then show "validar self ctx = Inl (ValueError (DataInvalida s))"
    using a
    by (intro validar_rule1_Inl) (simp add: rule_frequencia_maxima_def Let_def parse_date_def)
next
  assume "ctx_procedimento ctx = Some proc \<and> quantidade proc = None"
  then show "validar self ctx
      = validar self (ctx\<lparr>ctx_procedimento := Some (proc\<lparr>quantidade := Some 1\<rparr>)\<rparr>)"
    using quantidade_padrao by blast
next
  assume "historico_sessoes ctx = None"
  then show "validar self ctx = validar self (ctx\<lparr>historico_sessoes := Some []\<rparr>)"
    by (rule historico_padrao)
next
  assume "ctx_beneficiario ctx = Some b \<and> ativo b = Some at \<and> idade b = Some idd
    \<and> carencia_dias b = Some car \<and> ctx_procedimento ctx = Some proc \<and> cid proc = Some c
    \<and> tipo proc = Some tp \<and> quantidade proc = None"
  then show "validar_tea config ctx = Inl (KeyError ''quantidade'')"
    using validar_tea_sem_quantidade by blast
next
  assume "validar self ctx = Inr rep"
  from validar_Inr[OF this] show "\<exists>g c1 m1 e1 c2 m2 e2 c3 m3 e3 c4 m4 e4.
      rep = PDict [(''conforme'', PBool g),
        (''regras'', PDict [(''frequencia_maxima'', resultado c1 m1 e1),
           (''intervalo_minimo'', resultado c2 m2 e2),
           (''repeticao_proibida'', resultado c3 m3 e3),
           (''mesmo_dia'', resultado c4 m4 e4)])]"
    by blast
next
  assume "validar_tea config ctx = Inr rep'"
  from validar_tea_Inr[OF this] show "\<exists>g c1 m1 c2 m2 c3 m3.
      rep' = PDict [(''elegibilidade'', resultado_tea c1 m1),
        (''cobertura'', resultado_tea c2 m2), (''limites'', resultado_tea c3 m3),
        (''conforme'', PBool g)]"
    by blast
next
  assume "ctx_procedimento ctx = Some proc \<and> tipo proc = Some tp"
  then show "validar self (ctx\<lparr>historico_sessoes :=
       Some (filter (\<lambda>r. sessao_tipo r = Some tp) (historico ctx))\<rparr>) = validar self ctx"
    using validar_filtro by blast
next
  assume "ctx_procedimento ctx = Some proc \<and> tipo proc = Some tp
    \<and> \<not> consulta_historico self tp"
  then show "validar self (ctx\<lparr>historico_sessoes := h\<rparr>) = validar self ctx"
    using validar_sem_consulta by blast
next
  assume "RegraMotorFrequencia_init cfg = Inr self
    \<and> ctx_procedimento ctx = Some proc \<and> tipo proc = Some tp
    \<and> data_solicitacao proc = Some dv \<and> parse_date dv = Inr data_sol
    \<and> consulta_historico self tp
    \<and> historico ctx = pre @ reg # pos \<and> hist_ok pre tp
    \<and> sessao_tipo reg = Some tp \<and> sessao_data reg = None"
  then show "validar self ctx = Inl (KeyError ''data'')"
    using validar_sem_data by blast
next
  assume "RegraMotorFrequencia_init cfg = Inr self
    \<and> ctx_procedimento ctx = Some proc \<and> tipo proc = Some tp
    \<and> data_solicitacao proc = Some dv \<and> parse_date dv = Inr data_sol
    \<and> consulta_historico self tp
    \<and> historico ctx = pre @ reg # pos \<and> hist_ok pre tp
    \<and> sessao_tipo reg = Some tp \<and> sessao_data reg = Some (DStr valor)
    \<and> strptime valor = Inl e'"
  then show "validar self ctx = Inl (ValueError (DataInvalida valor))"
    using validar_data_historico_invalida by blast
qed

text \<open>
  The claim as the specification words it fails on the frequency engine: a request with
  neither \<^verbatim>\<open>quantidade\<close> nor \<^verbatim>\<open>historico_sessoes\<close> gets a complete report, and so
  does one whose history holds a date that does not parse, when no rule reads it.
\<close>

theorem campos_ausentes_com_relatorio:
  "ctx_procedimento ctx_fono = Some (pedido_ex ''Fono'' None ''2024-03-20'')
   \<and> quantidade (pedido_ex ''Fono'' None ''2024-03-20'') = None
   \<and> historico_sessoes ctx_fono = None
   \<and> validar motor_ex ctx_fono = Inr relatorio_fono
   \<and> historico_sessoes ctx_fono_data_ruim = Some [sessao_em ''Fono'' ''31/12/2023'']
   \<and> parse_date (DStr ''31/12/2023'') = Inl (ValueError (DataInvalida ''31/12/2023''))
   \<and> validar motor_ex ctx_fono_data_ruim = Inr relatorio_fono"
  by code_simp

theorem falha_ou_relatorio_witness:
  "validar motor_ex ctx_sem_tipo = Inl (KeyError ''tipo'')
   \<and> validar motor_ex (ctx_aba (Some 1) ''20/03/2024'') = Inl (ValueError (DataInvalida ''20/03/2024''))
   \<and> validar motor_ex ctx_fono
       = validar motor_ex (ctx_fono\<lparr>ctx_procedimento :=
           Some ((pedido_ex ''Fono'' None ''2024-03-20'')\<lparr>quantidade := Some 1\<rparr>)\<rparr>)
   \<and> validar motor_ex ctx_fono = validar motor_ex (ctx_fono\<lparr>historico_sessoes := Some []\<rparr>)
   \<and> validar_tea tea_ex (ctx_aba None ''2024-03-20'') = Inl (KeyError ''quantidade'')
   \<and> validar motor_ex (ctx_ex\<lparr>historico_sessoes := Some [sessao_em ''ABA'' ''2024-03-01'']\<rparr>)
       = validar motor_ex ctx_ex
   \<and> validar motor_ex (ctx_fono\<lparr>historico_sessoes := Some hist_ruim\<rparr>) = validar motor_ex ctx_fono
   \<and> validar motor_ex ctx_sem_data = Inl (KeyError ''data'')
   \<and> validar motor_ex ctx_hist_ruim = Inl (ValueError (DataInvalida ''01/03/2024''))"
proof -
  have 1: "validar motor_ex ctx_sem_tipo = Inl (KeyError ''tipo'')"
    using falha_ou_relatorio_completo[where ctx = ctx_sem_tipo and self = motor_ex
        and proc = "\<lparr>cid = None, tipo = None, quantidade = None,
           data_solicitacao = Some (DStr ''2024-03-20'')\<rparr>"]
    by (simp add: ctx_sem_tipo_def)
  have d: "strptime ''20/03/2024'' = Inl (ValueError (DataInvalida ''20/03/2024''))"
    by code_simp
  have 2: "validar motor_ex (ctx_aba (Some 1) ''20/03/2024'')
      = Inl (ValueError (DataInvalida ''20/03/2024''))"
    using falha_ou_relatorio_completo[where ctx = "ctx_aba (Some 1) ''20/03/2024''"
        and self = motor_ex and proc = "pedido_ex ''ABA'' (Some 1) ''20/03/2024''"
        and tp = "''ABA''" and s = "''20/03/2024''"
        and e = "ValueError (DataInvalida ''20/03/2024'')"] d
    by (simp add: ctx_aba_def pedido_ex_def)
  have 3: "validar motor_ex ctx_fono
       = validar motor_ex (ctx_fono\<lparr>ctx_procedimento :=
           Some ((pedido_ex ''Fono'' None ''2024-03-20'')\<lparr>quantidade := Some 1\<rparr>)\<rparr>)"
    using falha_ou_relatorio_completo[where ctx = ctx_fono and self = motor_ex
        and proc = "pedido_ex ''Fono'' None ''2024-03-20''"]
    by (simp add: ctx_fono_def pedido_ex_def)
  have 4: "validar motor_ex ctx_fono = validar motor_ex (ctx_fono\<lparr>historico_sessoes := Some []\<rparr>)"
    using falha_ou_relatorio_completo[where ctx = ctx_fono and self = motor_ex]
    by (simp add: ctx_fono_def)
  have 5: "validar_tea tea_ex (ctx_aba None ''2024-03-20'') = Inl (KeyError ''quantidade'')"
    using falha_ou_relatorio_completo[where ctx = "ctx_aba None ''2024-03-20''"
        and config = tea_ex and proc = "pedido_ex ''ABA'' None ''2024-03-20''"
        and b = "\<lparr>ativo = Some False, idade = Some 10, carencia_dias = Some 0\<rparr>"
        and at = False and idd = 10 and car = 0 and c = "''F84.0''" and tp = "''ABA''"]
    by (simp add: ctx_aba_def pedido_ex_def)
  have f: "filter (\<lambda>r. sessao_tipo r = Some ''ABA'') (historico ctx_ex)
      = [sessao_em ''ABA'' ''2024-03-01'']"
    by (simp add: historico_def ctx_ex_def ctx_aba_def hist_ex_def sessao_em_def)
  have 6: "validar motor_ex (ctx_ex\<lparr>historico_sessoes := Some [sessao_em ''ABA'' ''2024-03-01'']\<rparr>)
       = validar motor_ex ctx_ex"
    using falha_ou_relatorio_completo[where ctx = ctx_ex and self = motor_ex
        and proc = "pedido_ex ''ABA'' (Some 1) ''2024-03-20''" and tp = "''ABA''"]
    unfolding f by (simp add: ctx_ex_def ctx_aba_def pedido_ex_def)
  have n: "\<not> consulta_historico motor_ex ''Fono''"
    by (simp add: consulta_historico_def motor_ex_def)
  have 7: "validar motor_ex (ctx_fono\<lparr>historico_sessoes := Some hist_ruim\<rparr>)
      = validar motor_ex ctx_fono"
    using falha_ou_relatorio_completo[where ctx = ctx_fono and self = motor_ex
        and proc = "pedido_ex ''Fono'' None ''2024-03-20''" and tp = "''Fono''"
        and h = "Some hist_ruim"] n
    by (simp add: ctx_fono_def pedido_ex_def)
  have i: "RegraMotorFrequencia_init (Some config_ex) = Inr motor_ex" by code_simp
  have p: "parse_date (DStr ''2024-03-20'') = Inr (dia 2024 3 20)" by code_simp
  have c: "consulta_historico motor_ex ''ABA''"
    by (simp add: consulta_historico_def motor_ex_def)
  have k1: "hist_ok [sessao_em ''ABA'' ''2024-03-01''] ''ABA''" by code_simp
  have 8: "validar motor_ex ctx_sem_data = Inl (KeyError ''data'')"
    using falha_ou_relatorio_completo[where ctx = ctx_sem_data and self = motor_ex
        and cfg = "Some config_ex" and proc = "pedido_ex ''ABA'' (Some 1) ''2024-03-20''"
        and tp = "''ABA''" and dv = "DStr ''2024-03-20''" and data_sol = "dia 2024 3 20"
        and pre = "[sessao_em ''ABA'' ''2024-03-01'']"
        and reg = "\<lparr>sessao_tipo = Some ''ABA'', sessao_data = None\<rparr>"
        and pos = "[sessao_em ''ABA'' ''01/03/2024'']"] i p c k1
    by (simp add: ctx_sem_data_def pedido_ex_def historico_def)
  have k2: "hist_ok [sessao_em ''Fono'' ''31/12/2023'', sessao_em ''ABA'' ''2024-03-01''] ''ABA''"
    by code_simp
  have d2: "strptime ''01/03/2024'' = Inl (ValueError (DataInvalida ''01/03/2024''))"
    by code_simp
  have 9: "validar motor_ex ctx_hist_ruim = Inl (ValueError (DataInvalida ''01/03/2024''))"
    using falha_ou_relatorio_completo[where ctx = ctx_hist_ruim and self = motor_ex
        and cfg = "Some config_ex" and proc = "pedido_ex ''ABA'' (Some 1) ''2024-03-20''"
        and tp = "''ABA''" and dv = "DStr ''2024-03-20''" and data_sol = "dia 2024 3 20"
        and pre = "[sessao_em ''Fono'' ''31/12/2023'', sessao_em ''ABA'' ''2024-03-01'']"
        and reg = "sessao_em ''ABA'' ''01/03/2024''"
        and pos = "[\<lparr>sessao_tipo = Some ''ABA'', sessao_data = None\<rparr>]"
        and valor = "''01/03/2024''" and e' = "ValueError (DataInvalida ''01/03/2024'')"]
      i p c k2 d2
    by (simp add: ctx_hist_ruim_def hist_ruim_def pedido_ex_def historico_def sessao_em_def)
  show ?thesis using 1 2 3 4 5 6 7 8 9 by blast
qed

subsection \<open>The last session, read off the history\<close>

lemma date_le_trans: "date_le a b \<Longrightarrow> date_le b c \<Longrightarrow> date_le a c"
  by (auto simp: date_le_def)

lemma datas_ate_spec:
  assumes "hist_ok hist tp"
  shows "datas_ate hist tp d = Inr (sessoes_ate hist tp d)"
  using assms
proof (induction hist)
  case Nil
  then show ?case by (simp add: sessoes_ate_def map_filter_simps)
next
  case (Cons s hist)
  from Cons.prems have ok: "hist_ok hist tp" and
    s: "sessao_tipo s = Some tp \<Longrightarrow> data_de s \<noteq> None"
    by (simp_all add: hist_ok_def)
  note ih = Cons.IH[OF ok]
  show ?case
  proof (cases "sessao_tipo s = Some tp")
    case False
    then show ?thesis using ih by (simp add: sessoes_ate_def)
  next
    case True
    with s obtain x where x: "data_de s = Some x" by auto
    then obtain v where v: "sessao_data s = Some v" "parse_date v = Inr x"
      by (auto simp: data_de_Some)
    show ?thesis using True v x ih by (simp add: sessoes_ate_def map_filter_simps)
  qed
qed

lemma max_date_mem: "max_date m xs \<in> set (m # xs)"
  by (induction xs arbitrary: m) auto

lemma max_date_ge_first: "date_le m (max_date m xs)"
proof (induction xs arbitrary: m)
  case Nil
  then show ?case by (simp add: date_le_refl)
next
  case (Cons x xs)
  show ?case
  proof (cases "date_gt x m")
    case True
    then have "date_le m x" using date_le_total[of m x] by (auto simp: date_gt_def)
    moreover have "date_le x (max_date x xs)" by (rule Cons.IH)
    ultimately show ?thesis using True by (auto intro: date_le_trans)
  next
    case False
    then show ?thesis using Cons.IH[of m] by simp
  qed
qed

lemma max_date_upper_bound: "\<forall>x\<in>set (m # xs). date_le x (max_date m xs)"
proof (induction xs arbitrary: m)
  case Nil
  then show ?case by (simp add: date_le_refl)
next
  case (Cons x xs)
  let ?m' = "if date_gt x m then x else m"
  have ih: "\<forall>y\<in>set (?m' # xs). date_le y (max_date ?m' xs)" by (rule Cons.IH)
  have m': "date_le ?m' (max_date ?m' xs)" by (rule max_date_ge_first)
  have "date_le m ?m'" using date_le_total[of m x] by (auto simp: date_gt_def date_le_refl)
  then have 1: "date_le m (max_date ?m' xs)" using m' by (rule date_le_trans)
  have "date_le x ?m'" by (auto simp: date_gt_def date_le_refl)
  then have 2: "date_le x (max_date ?m' xs)" using m' by (rule date_le_trans)
  show ?case using 1 2 ih by simp
qed

text \<open>The lookup, read off the history: none without a session, else the last one.\<close>

lemma last_session_date_vazio:
  assumes "hist_ok hist tp" and "sessoes_ate hist tp d = []"
  shows "last_session_date hist tp d = Inr None"
  using datas_ate_spec[OF assms(1), of d] assms(2) by (simp add: last_session_date_def)

lemma last_session_date_ultima:
  assumes "hist_ok hist tp" and "ultima_sessao hist tp d m"
  shows "last_session_date hist tp d = Inr (Some m)"
proof -
  from assms(2) have mem: "m \<in> set (sessoes_ate hist tp d)"
    and ub: "\<forall>x\<in>set (sessoes_ate hist tp d). date_le x m"
    by (simp_all add: ultima_sessao_def list_all_iff)
  from mem obtain a xs where ax: "sessoes_ate hist tp d = a # xs"
    by (cases "sessoes_ate hist tp d") auto
  have "max_date a xs = m"
    by (rule max_date_upper) (use ub mem ax in auto)
  then show ?thesis
    using datas_ate_spec[OF assms(1), of d] ax by (simp add: last_session_date_def)
qed

lemma ultima_sessao_existe:
  assumes "sessoes_ate hist tp d \<noteq> []"
  shows "\<exists>m. ultima_sessao hist tp d m"
proof -
  from assms obtain a xs where ax: "sessoes_ate hist tp d = a # xs"
    by (cases "sessoes_ate hist tp d") auto
  have "ultima_sessao hist tp d (max_date a xs)"
    unfolding ultima_sessao_def list_all_iff ax
    using max_date_mem[of a xs] max_date_upper_bound[of a xs] by blast
  then show ?thesis by blast
qed

lemma sessoes_ate_mem:
  "x \<in> set (sessoes_ate hist tp d) \<longleftrightarrow>
     (\<exists>s\<in>set hist. sessao_tipo s = Some tp \<and> data_de s = Some x) \<and> date_le x d"
  by (force simp: sessoes_ate_def map_filter_def)

text \<open>
  Claim C3. Take a request whose type has a strictly positive minimum interval and a
  history, well formed for that type, in which the last session of the type on or before
  the request date is dated \<open>last_dt\<close>. Then the flag of the interval rule is
  \<open>days \<ge> min_days \<and> (requested = 1 \<or> min_days = 0)\<close>, with \<open>days\<close> the days from
  \<open>last_dt\<close> to the request date; hence a request for more than one session is not
  compliant on this branch, whatever the gap. Such a last session exists as soon as the
  history has a session of the type on or before the request date. With no interval
  configured (or one that is not positive), or with no session of the type on or before
  the request date, the rule is compliant.
\<close>

theorem intervalo_minimo_decisao:
  assumes "ctx_procedimento ctx = Some proc" and "tipo proc = Some tp"
    and "data_solicitacao proc = Some dv" and "parse_date dv = Inr data_sol"
    and "min_days = (case map_of (int_min self) tp of None \<Rightarrow> 0 | Some n \<Rightarrow> n)"
  shows "(0 < min_days \<and> hist_ok (historico ctx) tp
          \<and> ultima_sessao (historico ctx) tp data_sol last_dt \<longrightarrow>
            (\<exists>msg ev. rule_intervalo_minimo self ctx
               = Inr (resultado (min_days \<le> days_between data_sol last_dt
                        \<and> (qtd_solicitada proc = 1 \<or> min_days = 0)) msg ev))
          \<and> (1 < qtd_solicitada proc \<longrightarrow>
               (\<exists>msg ev. rule_intervalo_minimo self ctx = Inr (resultado False msg ev))))
     \<and> ((x \<in> set (sessoes_ate (historico ctx) tp data_sol))
          = ((\<exists>s. s \<in> set (historico ctx) \<and> sessao_tipo s = Some tp \<and> data_de s = Some x)
             \<and> date_le x data_sol))
     \<and> (sessoes_ate (historico ctx) tp data_sol \<noteq> [] \<longrightarrow>
            (\<exists>m. ultima_sessao (historico ctx) tp data_sol m))
     \<and> (min_days \<le> 0 \<longrightarrow>
            (\<exists>msg ev. rule_intervalo_minimo self ctx = Inr (resultado True msg ev)))
     \<and> (0 < min_days \<and> hist_ok (historico ctx) tp
          \<and> sessoes_ate (historico ctx) tp data_sol = [] \<longrightarrow>
            (\<exists>msg ev. rule_intervalo_minimo self ctx = Inr (resultado True msg ev)))"
proof (intro conjI impI)
  assume a: "0 < min_days \<and> hist_ok (historico ctx) tp
     \<and> ultima_sessao (historico ctx) tp data_sol last_dt"
  then have l: "last_session_date (historico ctx) tp data_sol = Inr (Some last_dt)"
    using last_session_date_ultima by blast
  show r: "\<exists>msg ev. rule_intervalo_minimo self ctx
      = Inr (resultado (min_days \<le> days_between data_sol last_dt
               \<and> (qtd_solicitada proc = 1 \<or> min_days = 0)) msg ev)"
    using assms a l
    by (auto simp: rule_intervalo_minimo_def historico_def qtd_solicitada_def Let_def)
  assume "1 < qtd_solicitada proc"
  then have "(min_days \<le> days_between data_sol last_dt
      \<and> (qtd_solicitada proc = 1 \<or> min_days = 0)) = False"
    using a by simp
  then show "\<exists>msg ev. rule_intervalo_minimo self ctx = Inr (resultado False msg ev)"
    using r by metis
next
  show "(x \<in> set (sessoes_ate (historico ctx) tp data_sol))
      = ((\<exists>s. s \<in> set (historico ctx) \<and> sessao_tipo s = Some tp \<and> data_de s = Some x)
         \<and> date_le x data_sol)"
    unfolding sessoes_ate_mem by blast
next
  assume "sessoes_ate (historico ctx) tp data_sol \<noteq> []"
  then show "\<exists>m. ultima_sessao (historico ctx) tp data_sol m"
    by (rule ultima_sessao_existe)
next
  assume "min_days \<le> 0"
  then show "\<exists>msg ev. rule_intervalo_minimo self ctx = Inr (resultado True msg ev)"
    using assms
    by (auto simp: rule_intervalo_minimo_def historico_def qtd_solicitada_def Let_def)
next
  assume a: "0 < min_days \<and> hist_ok (historico ctx) tp
     \<and> sessoes_ate (historico ctx) tp data_sol = []"
  then have "last_session_date (historico ctx) tp data_sol = Inr None"
    using last_session_date_vazio by blast
  then show "\<exists>msg ev. rule_intervalo_minimo self ctx = Inr (resultado True msg ev)"
    using assms a
    by (auto simp: rule_intervalo_minimo_def historico_def qtd_solicitada_def Let_def)
qed

theorem intervalo_minimo_witness:
  "ultima_sessao (historico ctx_ex) ''ABA'' (dia 2024 3 20) (dia 2024 3 1)
   \<and> days_between (dia 2024 3 20) (dia 2024 3 1) = 19
   \<and> (\<exists>msg ev. rule_intervalo_minimo motor_ex ctx_ex = Inr (resultado True msg ev))
   \<and> (\<exists>msg ev. rule_intervalo_minimo motor_ex (ctx_aba (Some 2) ''2024-03-20'')
         = Inr (resultado False msg ev))
   \<and> ultima_sessao (historico ctx_duas) ''ABA'' (dia 2024 3 20) (dia 2024 3 18)
   \<and> days_between (dia 2024 3 20) (dia 2024 3 18) = 2
   \<and> (\<exists>msg ev. rule_intervalo_minimo motor_ex ctx_duas = Inr (resultado False msg ev))
   \<and> (\<exists>msg ev. rule_intervalo_minimo motor_ex ctx_fono = Inr (resultado True msg ev))
   \<and> sessoes_ate (historico (ctx_aba (Some 1) ''2024-02-20'')) ''ABA'' (dia 2024 2 20) = []
   \<and> (\<exists>msg ev. rule_intervalo_minimo motor_ex (ctx_aba (Some 1) ''2024-02-20'')
         = Inr (resultado True msg ev))"
proof -
  have d: "parse_date (DStr ''2024-03-20'') = Inr (dia 2024 3 20)" by code_simp
  have d2: "parse_date (DStr ''2024-02-20'') = Inr (dia 2024 2 20)" by code_simp
  have m: "7 = (case map_of (int_min motor_ex) ''ABA'' of None \<Rightarrow> 0 | Some n \<Rightarrow> n)"
    by code_simp
  have m0: "0 = (case map_of (int_min motor_ex) ''Fono'' of None \<Rightarrow> 0 | Some n \<Rightarrow> n)"
    by code_simp
  have o1: "hist_ok (historico ctx_ex) ''ABA''" by code_simp
  have o2: "hist_ok (historico (ctx_aba (Some 2) ''2024-03-20'')) ''ABA''" by code_simp
  have o3: "hist_ok (historico ctx_duas) ''ABA''" by code_simp
  have o4: "hist_ok (historico (ctx_aba (Some 1) ''2024-02-20'')) ''ABA''" by code_simp
  have u1: "ultima_sessao (historico ctx_ex) ''ABA'' (dia 2024 3 20) (dia 2024 3 1)"
    by code_simp
  have u2: "ultima_sessao (historico (ctx_aba (Some 2) ''2024-03-20'')) ''ABA'' (dia 2024 3 20)
      (dia 2024 3 1)"
    by code_simp
  have u3: "ultima_sessao (historico ctx_duas) ''ABA'' (dia 2024 3 20) (dia 2024 3 18)"
    by code_simp
  have v: "sessoes_ate (historico (ctx_aba (Some 1) ''2024-02-20'')) ''ABA'' (dia 2024 2 20) = []"
    by code_simp
  have g: "days_between (dia 2024 3 20) (dia 2024 3 1) = 19" by code_simp
  have g2: "days_between (dia 2024 3 20) (dia 2024 3 18) = 2" by code_simp
  have q1: "qtd_solicitada (pedido_ex ''ABA'' (Some 1) ''2024-03-20'') = 1"
    by (simp add: qtd_solicitada_def pedido_ex_def)
  have q2: "qtd_solicitada (pedido_ex ''ABA'' (Some 2) ''2024-03-20'') = 2"
    by (simp add: qtd_solicitada_def pedido_ex_def)
  have 1: "\<exists>msg ev. rule_intervalo_minimo motor_ex ctx_ex = Inr (resultado True msg ev)"
    using intervalo_minimo_decisao[of ctx_ex "pedido_ex ''ABA'' (Some 1) ''2024-03-20''" "''ABA''"
        "DStr ''2024-03-20''" "dia 2024 3 20" 7 motor_ex "dia 2024 3 1"] d m o1 u1 g q1
    by (simp add: ctx_ex_def ctx_aba_def pedido_ex_def)
  have 2: "\<exists>msg ev. rule_intervalo_minimo motor_ex (ctx_aba (Some 2) ''2024-03-20'')
         = Inr (resultado False msg ev)"
    using intervalo_minimo_decisao[of "ctx_aba (Some 2) ''2024-03-20''"
        "pedido_ex ''ABA'' (Some 2) ''2024-03-20''" "''ABA''"
        "DStr ''2024-03-20''" "dia 2024 3 20" 7 motor_ex "dia 2024 3 1"] d m o2 u2 q2
    by (simp add: ctx_aba_def pedido_ex_def)
  have 3: "\<exists>msg ev. rule_intervalo_minimo motor_ex ctx_duas = Inr (resultado False msg ev)"
    using intervalo_minimo_decisao[of ctx_duas "pedido_ex ''ABA'' (Some 1) ''2024-03-20''" "''ABA''"
        "DStr ''2024-03-20''" "dia 2024 3 20" 7 motor_ex "dia 2024 3 18"] d m o3 u3 g2 q1
    by (simp add: ctx_duas_def pedido_ex_def)
  have 4: "\<exists>msg ev. rule_intervalo_minimo motor_ex ctx_fono = Inr (resultado True msg ev)"
    using intervalo_minimo_decisao[of ctx_fono "pedido_ex ''Fono'' None ''2024-03-20''" "''Fono''"
        "DStr ''2024-03-20''" "dia 2024 3 20" 0 motor_ex] d m0
    by (simp add: ctx_fono_def pedido_ex_def)
  have 5: "\<exists>msg ev. rule_intervalo_minimo motor_ex (ctx_aba (Some 1) ''2024-02-20'')
         = Inr (resultado True msg ev)"
    using intervalo_minimo_decisao[of "ctx_aba (Some 1) ''2024-02-20''"
        "pedido_ex ''ABA'' (Some 1) ''2024-02-20''" "''ABA''"
        "DStr ''2024-02-20''" "dia 2024 2 20" 7 motor_ex] d2 m o4 v
    by (simp add: ctx_aba_def pedido_ex_def)
  show ?thesis using u1 g 1 2 u3 g2 3 4 v 5 by blast
qed

subsection \<open>The weekly key\<close>

text \<open>
  The arithmetic of \<^verbatim>\<open>_days_before_year\<close> and \<^verbatim>\<open>_isoweek1monday\<close>: a year has 365 or
  366 days, and the Monday of ISO week 1 is at most three days from January 1.
\<close>

lemma div_step_0:
  fixes y k :: int
  assumes "0 < k" and "y mod k = 0"
  shows "y div k = (y - 1) div k + 1"
proof -
  have e: "y = k * (y div k)" using assms(2) by (metis mult_div_mod_eq add.right_neutral)
  have "y - 1 = k * (y div k - 1) + (k - 1)"
    using e by (simp add: right_diff_distrib)
  from int_div_pos_eq[OF this] assms(1) have "(y - 1) div k = y div k - 1" by simp
  then show ?thesis by linarith
qed

lemma div_step_n:
  fixes y k :: int
  assumes "0 < k" and "y mod k \<noteq> 0"
  shows "y div k = (y - 1) div k"
proof -
  have "0 \<le> y mod k" using assms(1) by (rule pos_mod_sign)
  with assms(2) have r1: "0 < y mod k" by linarith
  have r2: "y mod k < k" using assms(1) by (rule pos_mod_bound)
  have "y = k * (y div k) + y mod k" by simp
  then have "y - 1 = k * (y div k) + (y mod k - 1)" by linarith
  from int_div_pos_eq[OF this] r1 r2 have "(y - 1) div k = y div k" by simp
  then show ?thesis by simp
qed

lemma mod_400_100: "(y::int) mod 400 = 0 \<Longrightarrow> y mod 100 = 0"
proof -
  assume "y mod 400 = 0"
  then have "400 dvd y" by (simp add: mod_eq_0_iff_dvd)
  moreover have "(100::int) dvd 400" by simp
  ultimately have "100 dvd y" by (rule dvd_trans[rotated])
  then show ?thesis by (simp add: mod_eq_0_iff_dvd)
qed

lemma mod_100_4: "(y::int) mod 100 = 0 \<Longrightarrow> y mod 4 = 0"
proof -
  assume "y mod 100 = 0"
  then have "100 dvd y" by (simp add: mod_eq_0_iff_dvd)
  moreover have "(4::int) dvd 100" by simp
  ultimately have "4 dvd y" by (rule dvd_trans[rotated])
  then show ?thesis by (simp add: mod_eq_0_iff_dvd)
qed

lemma dby_step: "days_before_year (y + 1) = days_before_year y + (if is_leap y then 366 else 365)"
proof -
  have l: "days_before_year (y + 1) = y * 365 + y div 4 - y div 100 + y div 400"
    by (simp add: days_before_year_def Let_def)
  have r: "days_before_year y = (y - 1) * 365 + (y - 1) div 4 - (y - 1) div 100 + (y - 1) div 400"
    by (simp add: days_before_year_def Let_def)
  have m: "(y - 1) * 365 = y * 365 - 365" by (simp add: algebra_simps)
  consider (n4) "y mod 4 \<noteq> 0" | (n100) "y mod 4 = 0" "y mod 100 \<noteq> 0"
    | (n400) "y mod 100 = 0" "y mod 400 \<noteq> 0" | (y400) "y mod 400 = 0"
    by argo
  then show ?thesis
  proof cases
    case n4
    then have n: "y mod 100 \<noteq> 0" "y mod 400 \<noteq> 0" using mod_100_4[of y] mod_400_100[of y] by argo+
    have "y div 4 = (y - 1) div 4" by (rule div_step_n) (use n4 in simp_all)
    moreover have "y div 100 = (y - 1) div 100" by (rule div_step_n) (use n in simp_all)
    moreover have "y div 400 = (y - 1) div 400" by (rule div_step_n) (use n in simp_all)
    moreover have "\<not> is_leap y" using n4 by (simp add: is_leap_def)
    ultimately show ?thesis using l r m by presburger
  next
    case n100
    then have n: "y mod 400 \<noteq> 0" using mod_400_100[of y] by argo
    have "y div 4 = (y - 1) div 4 + 1" by (rule div_step_0) (use n100 in simp_all)
    moreover have "y div 100 = (y - 1) div 100" by (rule div_step_n) (use n100 in simp_all)
    moreover have "y div 400 = (y - 1) div 400" by (rule div_step_n) (use n in simp_all)
    moreover have "is_leap y" using n100 by (simp add: is_leap_def)
    ultimately show ?thesis using l r m by presburger
  next
    case n400
    then have n: "y mod 4 = 0" using mod_100_4[of y] by argo
    have "y div 4 = (y - 1) div 4 + 1" by (rule div_step_0) (use n in simp_all)
    moreover have "y div 100 = (y - 1) div 100 + 1" by (rule div_step_0) (use n400 in simp_all)
    moreover have "y div 400 = (y - 1) div 400" by (rule div_step_n) (use n400 in simp_all)
    moreover have "\<not> is_leap y" using n400 by (simp add: is_leap_def)
    ultimately show ?thesis using l r m by presburger
  next
    case y400
    then have n1: "y mod 100 = 0" using mod_400_100[of y] by argo
    then have n2: "y mod 4 = 0" using mod_100_4[of y] by argo
    have "y div 4 = (y - 1) div 4 + 1" by (rule div_step_0) (use n2 in simp_all)
    moreover have "y div 100 = (y - 1) div 100 + 1" by (rule div_step_0) (use n1 in simp_all)
    moreover have "y div 400 = (y - 1) div 400 + 1" by (rule div_step_0) (use y400 in simp_all)
    moreover have "is_leap y" using y400 n2 by (simp add: is_leap_def)
    ultimately show ?thesis using l r m by presburger
  qed
qed

lemma dby_mono_aux: "days_before_year y + 365 * int n \<le> days_before_year (y + int n)"
proof (induction n)
  case 0
  then show ?case by simp
next
  case (Suc n)
  have "y + int (Suc n) = (y + int n) + 1" by simp
  then have "days_before_year (y + int (Suc n)) = days_before_year ((y + int n) + 1)"
    by (rule arg_cong)
  also have "\<dots> \<ge> days_before_year (y + int n) + 365"
    using dby_step[of "y + int n"] by (simp split: if_splits)
  finally show ?case using Suc.IH by simp
qed

lemma dby_mono: "y < y' \<Longrightarrow> days_before_year y + 365 \<le> days_before_year y'"
proof -
  assume "y < y'"
  then obtain n where n: "y' = y + int n" "0 < n"
    by (metis zless_iff_Suc_zadd zero_less_Suc)
  have "days_before_year y + 365 \<le> days_before_year y + 365 * int n" using n(2) by simp
  with dby_mono_aux[of y n] n(1) show ?thesis by simp
qed

lemma firstday: "ymd2ord y 1 1 = days_before_year y + 1"
  by (simp add: ymd2ord_def days_before_month_def DAYS_BEFORE_MONTH_def)

lemma mes_casos:
  assumes "1 \<le> m" and "m \<le> (12::int)"
  shows "m = 1 \<or> m = 2 \<or> m = 3 \<or> m = 4 \<or> m = 5 \<or> m = 6 \<or> m = 7 \<or> m = 8 \<or> m = 9
     \<or> m = 10 \<or> m = 11 \<or> m = 12"
  using assms by arith

lemma dias_no_ano:
  assumes "1 \<le> m" and "m \<le> 12" and "1 \<le> d" and "d \<le> days_in_month y m"
  shows "1 \<le> days_before_month y m + d
     \<and> days_before_month y m + d \<le> (if is_leap y then 366 else 365)"
  using mes_casos[OF assms(1,2)] assms(3,4)
  by (auto simp: days_before_month_def days_in_month_def DAYS_BEFORE_MONTH_def DAYS_IN_MONTH_def)

lemma toordinal_bounds:
  assumes "valid_date d"
  shows "days_before_year (year d) + 1 \<le> toordinal d"
    and "toordinal d \<le> days_before_year (year d + 1)"
proof -
  from assms have v: "1 \<le> month d" "month d \<le> 12" "1 \<le> day d"
    "day d \<le> days_in_month (year d) (month d)"
    by (simp_all add: valid_date_def)
  note b = dias_no_ano[OF v]
  show "days_before_year (year d) + 1 \<le> toordinal d"
    using b by (simp add: toordinal_def ymd2ord_def)
  show "toordinal d \<le> days_before_year (year d + 1)"
    using b dby_step[of "year d"] by (simp add: toordinal_def ymd2ord_def split: if_splits)
qed

lemma week1_arith:
  fixes F :: int
  defines "w \<equiv> (F + 6) mod 7"
  defines "W \<equiv> (if w > 3 then F - w + 7 else F - w)"
  shows "(W - 1) mod 7 = 0" and "F - 3 \<le> W" and "W \<le> F + 3"
  unfolding W_def w_def by presburger+

lemma isoweek1monday_props:
  "(isoweek1monday y - 1) mod 7 = 0"
  "days_before_year y - 2 \<le> isoweek1monday y"
  "isoweek1monday y \<le> days_before_year y + 4"
  using week1_arith[of "days_before_year y + 1"]
  by (simp_all add: isoweek1monday_def firstday Let_def)

lemma isoweek1monday_mono:
  assumes "y < y'"
  shows "isoweek1monday y + 7 \<le> isoweek1monday y'"
  using isoweek1monday_props(3)[of y] isoweek1monday_props(2)[of y'] dby_mono[OF assms]
  by linarith


lemma semanas_do_ano:
  fixes W1 W2 :: int
  assumes "(W1 - 1) mod 7 = 0" and "(W2 - 1) mod 7 = 0" and "W1 + 359 \<le> W2"
  shows "W1 + 364 \<le> W2"
  using assms by presburger

lemma semana_negativa: "((t::int) - W) div 7 < 0 \<longleftrightarrow> t < W"
  by presburger

lemma semana_52: "(W::int) + 364 \<le> t \<Longrightarrow> 52 \<le> (t - W) div 7"
  by presburger

lemma semana_zero: "(W::int) \<le> t \<Longrightarrow> t \<le> W + 6 \<Longrightarrow> (t - W) div 7 = 0"
  by presburger

lemma week_year_key_char:
  assumes "valid_date d"
  shows "\<exists>Y. week_year_key d = (Y, (toordinal d - isoweek1monday Y) div 7 + 1)
     \<and> isoweek1monday Y \<le> toordinal d \<and> toordinal d < isoweek1monday (Y + 1)"
proof -
  define y where "y = year d"
  define t where "t = toordinal d"
  define W0 where "W0 = isoweek1monday (y - 1)"
  define W1 where "W1 = isoweek1monday y"
  define W2 where "W2 = isoweek1monday (y + 1)"
  define W3 where "W3 = isoweek1monday (y + 1 + 1)"
  have tb: "days_before_year y + 1 \<le> t" "t \<le> days_before_year (y + 1)"
    using toordinal_bounds[OF assms] by (simp_all add: y_def t_def)
  have s0: "days_before_year (y - 1) + 365 \<le> days_before_year y"
    by (rule dby_mono) simp
  have s1: "days_before_year y + 365 \<le> days_before_year (y + 1)"
    by (rule dby_mono) simp
  have s2: "days_before_year (y + 1) + 365 \<le> days_before_year (y + 1 + 1)"
    by (rule dby_mono) simp
  have i0: "W0 \<le> t"
    using isoweek1monday_props(3)[of "y - 1"] s0 tb(1) by (simp add: W0_def)
  have i1: "W1 + 359 \<le> W2"
    using isoweek1monday_props(3)[of y] isoweek1monday_props(2)[of "y + 1"] s1
    by (simp add: W1_def W2_def)
  have i2: "t \<le> W2 + 2"
    using isoweek1monday_props(2)[of "y + 1"] tb(2) by (simp add: W2_def)
  have i3: "t < W3"
    using isoweek1monday_props(2)[of "y + 1 + 1"] s2 tb(2) by (simp add: W3_def)
  have i4: "W1 + 364 \<le> W2"
    using isoweek1monday_props(1)[of y] isoweek1monday_props(1)[of "y + 1"] i1
    unfolding W1_def W2_def by (rule semanas_do_ano)
  have iso: "week_year_key d =
      (if (t - W1) div 7 < 0 then (y - 1, (t - W0) div 7 + 1)
       else if 52 \<le> (t - W1) div 7 \<and> W2 \<le> t then (y + 1, 1)
       else (y, (t - W1) div 7 + 1))"
    by (simp add: week_year_key_def isocalendar_def Let_def t_def y_def W0_def W1_def W2_def
        toordinal_def)
  consider (a) "t < W1" | (b) "W1 \<le> t" "W2 \<le> t" | (c) "W1 \<le> t" "t < W2"
    by linarith
  then show ?thesis
  proof cases
    case a
    then have "week_year_key d = (y - 1, (t - W0) div 7 + 1)"
      using iso by (simp add: semana_negativa)
    then show ?thesis using i0 a unfolding t_def W0_def W1_def
      by (intro exI[of _ "y - 1"]) simp
  next
    case b
    have "52 \<le> (t - W1) div 7" using b(2) i4 by (intro semana_52) linarith
    then have k: "week_year_key d = (y + 1, 1)"
      using iso b by (simp add: semana_negativa)
    have "(t - W2) div 7 = 0" using b(2) i2 by (intro semana_zero) linarith+
    then show ?thesis using k b(2) i3 unfolding t_def W2_def W3_def
      by (intro exI[of _ "y + 1"]) simp
  next
    case c
    then have "week_year_key d = (y, (t - W1) div 7 + 1)"
      using iso by (simp add: semana_negativa)
    then show ?thesis using c unfolding t_def W1_def W2_def
      by (intro exI[of _ y]) simp
  qed
qed

lemma isoweek1monday_le:
  assumes "y \<le> y'"
  shows "isoweek1monday y \<le> isoweek1monday y'"
proof (cases "y = y'")
  case False
  then have "y < y'" using assms by simp
  from isoweek1monday_mono[OF this] show ?thesis by simp
qed simp

lemma ano_iso_unico:
  assumes "isoweek1monday Y1 \<le> t" and "t < isoweek1monday (Y1 + 1)"
    and "isoweek1monday Y2 \<le> s" and "s < isoweek1monday (Y2 + 1)"
    and "isoweek1monday Y1 \<le> s" and "isoweek1monday Y2 \<le> t"
  shows "Y1 = Y2"
proof (rule ccontr)
  assume "Y1 \<noteq> Y2"
  then consider "Y1 + 1 \<le> Y2" | "Y2 + 1 \<le> Y1" by linarith
  then show False
  proof cases
    case 1
    from isoweek1monday_le[OF this] show False using assms(2,6) by simp
  next
    case 2
    from isoweek1monday_le[OF this] show False using assms(4,5) by simp
  qed
qed

lemma semana_da_segunda:
  fixes t W c :: int
  assumes "(W - 1) mod 7 = 0" and "0 \<le> c" and "c < 7"
  shows "(t - (t + 6) mod 7 - W + c) div 7 = (t - W) div 7"
proof -
  define k where "k = (W - 1) div 7"
  define q where "q = (t + 6) div 7"
  define r where "r = (t + 6) mod 7"
  have W: "W = 7 * k + 1"
    using assms(1) mult_div_mod_eq[of 7 "W - 1"] unfolding k_def by linarith
  have t: "t + 6 = 7 * q + r" unfolding q_def r_def by simp
  have r: "0 \<le> r" "r < 7" unfolding r_def by simp_all
  have 1: "t - W = 7 * (q - k - 1) + r" using W t by (simp add: algebra_simps)
  have 2: "t - r - W + c = 7 * (q - k - 1) + c" using W t by (simp add: algebra_simps)
  from int_div_pos_eq[OF 1] r have "(t - W) div 7 = q - k - 1" by simp
  moreover from int_div_pos_eq[OF 2] assms(2,3) have "(t - r - W + c) div 7 = q - k - 1" by simp
  ultimately show ?thesis unfolding r_def by simp
qed

lemma semana_da_segunda_le:
  fixes t W :: int
  assumes "(W - 1) mod 7 = 0"
  shows "W \<le> t \<longleftrightarrow> W \<le> t - (t + 6) mod 7"
  using assms by presburger

lemma segunda_antes:
  fixes t W :: int
  assumes "(W - 1) mod 7 = 0" and "t < W"
  shows "t - (t + 6) mod 7 + 7 \<le> W"
  using assms by presburger

lemma mesma_semana_arith:
  fixes t s W :: int
  assumes "(W - 1) mod 7 = 0" and "t - (t + 6) mod 7 = s - (s + 6) mod 7"
  shows "W \<le> t \<longleftrightarrow> W \<le> s" and "(t - W) div 7 = (s - W) div 7"
proof -
  show "W \<le> t \<longleftrightarrow> W \<le> s"
    using semana_da_segunda_le[OF assms(1), of t] semana_da_segunda_le[OF assms(1), of s] assms(2)
    by simp
  show "(t - W) div 7 = (s - W) div 7"
    using semana_da_segunda[OF assms(1), of 0 t] semana_da_segunda[OF assms(1), of 0 s] assms(2)
    by simp
qed

lemma week_year_key_same_week:
  assumes "valid_date a" and "valid_date b" and "same_iso_week a b"
  shows "week_year_key a = week_year_key b"
proof -
  from week_year_key_char[OF assms(1)] obtain Y1 where
    a: "week_year_key a = (Y1, (toordinal a - isoweek1monday Y1) div 7 + 1)"
       "isoweek1monday Y1 \<le> toordinal a" "toordinal a < isoweek1monday (Y1 + 1)"
    by blast
  from week_year_key_char[OF assms(2)] obtain Y2 where
    b: "week_year_key b = (Y2, (toordinal b - isoweek1monday Y2) div 7 + 1)"
       "isoweek1monday Y2 \<le> toordinal b" "toordinal b < isoweek1monday (Y2 + 1)"
    by blast
  have m: "toordinal a - (toordinal a + 6) mod 7 = toordinal b - (toordinal b + 6) mod 7"
    using assms(3) by (simp add: same_iso_week_def monday_of_def weekday_def)
  have 1: "isoweek1monday Y1 \<le> toordinal b"
    using mesma_semana_arith(1)[OF isoweek1monday_props(1)[of Y1] m] a(2) by simp
  have 2: "isoweek1monday Y2 \<le> toordinal a"
    using mesma_semana_arith(1)[OF isoweek1monday_props(1)[of Y2] m] b(2) by simp
  have Y: "Y1 = Y2" using a(2,3) b(2,3) 1 2 by (rule ano_iso_unico)
  have "(toordinal a - isoweek1monday Y2) div 7 = (toordinal b - isoweek1monday Y2) div 7"
    by (rule mesma_semana_arith(2)[OF isoweek1monday_props(1)[of Y2] m])
  then show ?thesis using a(1) b(1) Y by simp
qed

lemma week_year_key_primeiro_de_janeiro:
  assumes "valid_date d" and "month d = 1" and "day d = 1"
    and "week_year_key d = (iy, iw)" and "iw = 52 \<or> iw = 53"
  shows "iy = year d - 1"
proof -
  define y where "y = year d"
  define W1 where "W1 = isoweek1monday y"
  have t: "toordinal d = days_before_year y + 1"
    using assms(2,3) by (simp add: toordinal_def firstday y_def)
  have w: "toordinal d \<le> W1 + 3" "W1 \<le> toordinal d + 3"
    using isoweek1monday_props(2,3)[of y] t by (simp_all add: W1_def)
  have iso: "week_year_key d =
      (if (toordinal d - W1) div 7 < 0
       then (y - 1, (toordinal d - isoweek1monday (y - 1)) div 7 + 1)
       else if 52 \<le> (toordinal d - W1) div 7 \<and> isoweek1monday (y + 1) \<le> toordinal d
         then (y + 1, 1)
       else (y, (toordinal d - W1) div 7 + 1))"
    by (simp add: week_year_key_def isocalendar_def Let_def y_def W1_def toordinal_def)
  show ?thesis
  proof (cases "toordinal d < W1")
    case True
    then show ?thesis using iso assms(4) by (simp add: semana_negativa y_def)
  next
    case False
    then have z: "(toordinal d - W1) div 7 = 0" using w(1) by (intro semana_zero) linarith+
    then have "week_year_key d = (y, 1)" using iso by simp
    then show ?thesis using assms(4,5) by simp
  qed
qed


lemma week_year_key_quinta:
  assumes "valid_date d" and "week_year_key d = (iy, iw)"
  shows "ymd2ord iy 1 1 \<le> monday_of d + 3"
    and "monday_of d + 3 < ymd2ord (iy + 1) 1 1"
    and "iw = (monday_of d + 3 - ymd2ord iy 1 1) div 7 + 1"
proof -
  define t where "t = toordinal d"
  define W where "W = isoweek1monday iy"
  define W' where "W' = isoweek1monday (iy + 1)"
  from week_year_key_char[OF assms(1)] assms(2) have
    k: "iw = (t - W) div 7 + 1" "W \<le> t" "t < W'"
    by (auto simp: t_def W_def W'_def)
  have M: "monday_of d = t - (t + 6) mod 7"
    by (simp add: monday_of_def weekday_def t_def)
  have a: "(W - 1) mod 7 = 0" "days_before_year iy - 2 \<le> W" "W \<le> days_before_year iy + 4"
    unfolding W_def by (rule isoweek1monday_props)+
  have b: "(W' - 1) mod 7 = 0" "W' \<le> days_before_year (iy + 1) + 4"
    unfolding W'_def by (rule isoweek1monday_props)+
  have 1: "W \<le> monday_of d" using semana_da_segunda_le[OF a(1), of t] k(2) M by simp
  have 2: "monday_of d + 7 \<le> W'" using segunda_antes[OF b(1) k(3)] M by simp
  show "ymd2ord iy 1 1 \<le> monday_of d + 3" using 1 a(2) by (simp add: firstday)
  show "monday_of d + 3 < ymd2ord (iy + 1) 1 1" using 2 b(2) by (simp add: firstday)
  define c where "c = W + 2 - days_before_year iy"
  have c: "0 \<le> c" "c < 7" using a(2,3) by (simp_all add: c_def)
  have "monday_of d + 3 - ymd2ord iy 1 1 = t - (t + 6) mod 7 - W + c"
    by (simp add: firstday M c_def)
  then have "(monday_of d + 3 - ymd2ord iy 1 1) div 7 = (t - W) div 7"
    using semana_da_segunda[OF a(1) c, of t] by simp
  then show "iw = (monday_of d + 3 - ymd2ord iy 1 1) div 7 + 1" using k(1) by simp
qed

lemma lower_semanal: "lower ''semanal'' = ''semanal''"
  by code_simp

lemma lower_diario: "lower ''diario'' = ''diario''"
  by code_simp

lemma lower_mensal: "lower ''mensal'' = ''mensal''"
  by code_simp

lemma lower_anual: "lower ''anual'' = ''anual''"
  by code_simp

lemma period_key_semanal:
  "period_key d ''semanal'' = Inr [fst (week_year_key d), snd (week_year_key d)]"
  by (simp add: period_key_def lower_semanal Let_def split: prod.splits)

text \<open>
  Claim C4. The weekly key is the ISO pair: its year is the calendar year in which the
  Thursday of the date's week falls (the Thursday is three days after the Monday on or
  before the date, and the days of year \<open>y\<close> are the ordinals from that of January 1 of
  \<open>y\<close> up to, not including, that of January 1 of \<open>y + 1\<close>), and its week is the number
  of that Thursday among the Thursdays of the year. So two dates of the same ISO week
  have the same weekly key, whatever their months, and a January 1 whose week is 52 or 53
  has the previous calendar year in its key. The daily key is year, month and day, the
  monthly key year and month, the annual key the year.
\<close>

theorem chave_semanal_iso:
  "(valid_date a \<and> valid_date b \<and> same_iso_week a b \<longrightarrow>
       period_key a ''semanal'' = period_key b ''semanal'')
   \<and> (valid_date d \<and> month d = 1 \<and> day d = 1 \<and> period_key d ''semanal'' = Inr [iy, iw]
        \<and> (iw = 52 \<or> iw = 53) \<longrightarrow> iy = year d - 1)
   \<and> (valid_date d \<and> period_key d ''semanal'' = Inr [jy, jw] \<longrightarrow>
        ymd2ord jy 1 1 \<le> monday_of d + 3 \<and> monday_of d + 3 < ymd2ord (jy + 1) 1 1
        \<and> jw = (monday_of d + 3 - ymd2ord jy 1 1) div 7 + 1)
   \<and> period_key d ''semanal'' = Inr [fst (week_year_key d), snd (week_year_key d)]
   \<and> period_key d ''diario'' = Inr [year d, month d, day d]
   \<and> period_key d ''mensal'' = Inr [year d, month d]
   \<and> period_key d ''anual'' = Inr [year d]"
proof (intro conjI impI)
  assume "valid_date a \<and> valid_date b \<and> same_iso_week a b"
  then have "week_year_key a = week_year_key b" using week_year_key_same_week by blast
  then show "period_key a ''semanal'' = period_key b ''semanal''"
    by (simp add: period_key_semanal)
next
  assume h: "valid_date d \<and> month d = 1 \<and> day d = 1 \<and> period_key d ''semanal'' = Inr [iy, iw]
    \<and> (iw = 52 \<or> iw = 53)"
  then have "week_year_key d = (iy, iw)" by (simp add: period_key_semanal prod_eq_iff)
  then show "iy = year d - 1" using h week_year_key_primeiro_de_janeiro by blast
next
  assume h: "valid_date d \<and> period_key d ''semanal'' = Inr [jy, jw]"
  then have k: "week_year_key d = (jy, jw)" by (simp add: period_key_semanal prod_eq_iff)
  from h have v: "valid_date d" by simp
  show "ymd2ord jy 1 1 \<le> monday_of d + 3" by (rule week_year_key_quinta(1)[OF v k])
  show "monday_of d + 3 < ymd2ord (jy + 1) 1 1" by (rule week_year_key_quinta(2)[OF v k])
  show "jw = (monday_of d + 3 - ymd2ord jy 1 1) div 7 + 1"
    by (rule week_year_key_quinta(3)[OF v k])
next
  show "period_key d ''semanal'' = Inr [fst (week_year_key d), snd (week_year_key d)]"
    by (rule period_key_semanal)
next
  show "period_key d ''diario'' = Inr [year d, month d, day d]"
    by (simp add: period_key_def lower_diario Let_def)
next
  show "period_key d ''mensal'' = Inr [year d, month d]"
    by (simp add: period_key_def lower_mensal Let_def month_year_key_def)
next
  show "period_key d ''anual'' = Inr [year d]"
    by (simp add: period_key_def lower_anual Let_def year_key_def)
qed

theorem chave_semanal_witness:
  "valid_date (dia 2024 1 29) \<and> valid_date (dia 2024 2 4)
   \<and> same_iso_week (dia 2024 1 29) (dia 2024 2 4)
   \<and> period_key (dia 2024 1 29) ''semanal'' = period_key (dia 2024 2 4) ''semanal''
   \<and> period_key (dia 2024 2 4) ''semanal'' = Inr [2024, 5]
   \<and> valid_date (dia 2021 1 1)
   \<and> period_key (dia 2021 1 1) ''semanal'' = Inr [2020, 53]
   \<and> year (dia 2021 1 1) - 1 = 2020
   \<and> ymd2ord 2020 1 1 \<le> monday_of (dia 2021 1 1) + 3
   \<and> monday_of (dia 2021 1 1) + 3 < ymd2ord (2020 + 1) 1 1
   \<and> (53::int) = (monday_of (dia 2021 1 1) + 3 - ymd2ord 2020 1 1) div 7 + 1"
proof -
  have v: "valid_date (dia 2024 1 29)" "valid_date (dia 2024 2 4)" "valid_date (dia 2021 1 1)"
    by code_simp+
  have s: "same_iso_week (dia 2024 1 29) (dia 2024 2 4)" by code_simp
  have k1: "period_key (dia 2024 2 4) ''semanal'' = Inr [2024, 5]" by code_simp
  have k2: "period_key (dia 2021 1 1) ''semanal'' = Inr [2020, 53]" by code_simp
  have 1: "period_key (dia 2024 1 29) ''semanal'' = period_key (dia 2024 2 4) ''semanal''"
    using chave_semanal_iso[where a = "dia 2024 1 29" and b = "dia 2024 2 4", THEN conjunct1]
      v s by blast
  have 2: "year (dia 2021 1 1) - 1 = 2020"
    using chave_semanal_iso[where d = "dia 2021 1 1" and iy = 2020 and iw = 53,
        THEN conjunct2, THEN conjunct1] v k2
    by (simp add: dia_def)
  have 3: "ymd2ord 2020 1 1 \<le> monday_of (dia 2021 1 1) + 3
      \<and> monday_of (dia 2021 1 1) + 3 < ymd2ord (2020 + 1) 1 1
      \<and> (53::int) = (monday_of (dia 2021 1 1) + 3 - ymd2ord 2020 1 1) div 7 + 1"
    using chave_semanal_iso[where d = "dia 2021 1 1" and jy = 2020 and jw = 53,
        THEN conjunct2, THEN conjunct2, THEN conjunct1] v k2
    by blast
  show ?thesis using v s k1 k2 1 2 3 by blast
qed

end
